theory Spec2Isabelle
  imports Complex_Main "HOL-Library.Sublist"
begin

section \<open>Data model\<close>

text \<open>
  The program is one Streamlit script, \<^verbatim>\<open>app.py\<close>, that is executed from top to bottom
  on every interaction (a "rerun"). What survives between reruns is
  \<^verbatim>\<open>st.session_state\<close>, which holds two entries: \<^verbatim>\<open>memory\<close> and \<^verbatim>\<open>_mem_config\<close>.
  The widgets of the sidebar and the chat input are the inputs of a rerun.

  A message of the chat history is an object with a \<^verbatim>\<open>type\<close> (the strings
  \<^verbatim>\<open>human\<close>, \<^verbatim>\<open>ai\<close>, \<^verbatim>\<open>system\<close>) and a \<^verbatim>\<open>content\<close>.
\<close>

record message =
  mtype :: string
  content :: string

definition HumanMessage :: "string \<Rightarrow> message" where
  "HumanMessage c = \<lparr>mtype = ''human'', content = c\<rparr>"

definition AIMessage :: "string \<Rightarrow> message" where
  "AIMessage c = \<lparr>mtype = ''ai'', content = c\<rparr>"

definition SystemMessage :: "string \<Rightarrow> message" where
  "SystemMessage c = \<lparr>mtype = ''system'', content = c\<rparr>"

text \<open>
  \<^verbatim>\<open>ChatGroq(model_name=..., temperature=..., max_tokens=..., api_key=...)\<close>: the
  parameters a chat model object is constructed with. The summarizer of line 126 is
  constructed without \<^verbatim>\<open>max_tokens\<close>. The temperature is only passed on, never computed
  with; every float is a rational number.
\<close>

record ChatGroq =
  llm_model_name :: string
  llm_temperature :: rat
  llm_max_tokens :: "int option"
  llm_api_key :: string

text \<open>
  The three memory classes of the orchestration library. All of them own a
  \<^verbatim>\<open>chat_memory.messages\<close> list; the summary memory also has a summary \<^verbatim>\<open>buffer\<close> and the
  chat model it summarizes with, the window memory its \<^verbatim>\<open>k\<close>.
\<close>

datatype mem_kind =
    BufferMemory
  | SummaryMemory ChatGroq
  | WindowMemory int

record memory =
  kind :: mem_kind
  messages :: "message list"
  buffer :: string

record session_state =
  memory :: "memory option"
  mem_config :: "string option"

text \<open>The widget values of one rerun (lines 40--110 and 169).\<close>

record inputs =
  GROQ_API_KEY :: string
  model_name :: string
  temperature :: rat
  max_tokens :: int
  system_prompt :: string
  memory_type :: string
  window_k :: "int option"
  clear_chat :: bool
  user_input :: "string option"

text \<open>
  The external model service is a collaborator: it receives a request and returns a
  completion or fails. A request is either the chat completion of a turn (the chat model
  and the prompt messages: system instruction, history, new human message) or the
  summarization request of the summary memory (its chat model, the current summary and
  the new lines).
\<close>

datatype error = AttributeError | ValueError string | ApiError string

datatype request =
    ChatRequest ChatGroq "message list"
  | SummaryRequest ChatGroq string "message list"

type_synonym llm = "request \<Rightarrow> error + string"

text \<open>
  The prompt classes of the library are a collaborator too. The script hands its free-text
  system prompt to them as a template (line 147), and they decide which texts are
  templates at all and what text a template becomes when it is filled in:
  \<^item> \<open>from_messages\<close> is \<^verbatim>\<open>ChatPromptTemplate.from_messages\<close> of line 145 on the system
    prompt (the placeholder for the history and the human template \<^verbatim>\<open>{input}\<close> are
    fixed): it gives the prompt object or raises;
  \<^item> \<open>conversation_chain\<close> is the validation \<^verbatim>\<open>ConversationChain\<close> runs on the prompt when
    it is constructed in line 153: it raises or lets the prompt pass;
  \<^item> \<open>format_system\<close> is what \<^verbatim>\<open>predict\<close> does with the system template before it calls
    the model: filled in with the history and the input it gives the text of the system
    message, or raises.

  The three operations are parameters of the script's model: nothing is assumed about
  which prompts they accept or what text they produce. (In the library a doubled brace
  stands for a brace, and a text with a field \<^verbatim>\<open>{name}\<close> other than the history and the
  input is refused.)
\<close>

record 'p prompts =
  from_messages :: "string \<Rightarrow> error + 'p"
  conversation_chain :: "ChatGroq \<Rightarrow> memory \<Rightarrow> 'p \<Rightarrow> error option"
  format_system :: "'p \<Rightarrow> message list \<Rightarrow> string \<Rightarrow> error + string"

text \<open>
  What a rerun puts on the page, in order: the messages of the sidebar, the chat bubbles,
  the typing placeholder and the download button. Title, captions and style sheet carry
  no data of the session and are left out.
\<close>

datatype ui =
    Success string
  | Warning string
  | ChatMessage string string
  | Placeholder string
  | DownloadButton string

text \<open>
  How a rerun ends: it runs to the last line, \<^verbatim>\<open>st.stop()\<close> ends it, \<^verbatim>\<open>st.rerun()\<close>
  ends it and starts the script again, or an exception escapes (Streamlit then shows the
  exception on the page as an error box).
\<close>

datatype outcome = Completed | Stopped | Rerun | Raised error

record run_result =
  state :: session_state
  shown :: "ui list"
  requests :: "request list"
  outcome :: outcome

section \<open>Python's \<^verbatim>\<open>str\<close> of an integer, and the configuration key\<close>

function str_nat :: "nat \<Rightarrow> string" where
  "str_nat n = (if n < 10 then [''0123456789'' ! n]
                else str_nat (n div 10) @ [''0123456789'' ! (n mod 10)])"
  by pat_completeness auto
termination
  by (relation "measure (\<lambda>n. n)") auto

declare str_nat.simps [simp del]

definition str_int :: "int \<Rightarrow> string" where
  "str_int i = (if i < 0 then CHR ''-'' # str_nat (nat (- i)) else str_nat (nat i))"

fun str_window :: "int option \<Rightarrow> string" where
  "str_window None = ''None''"
| "str_window (Some i) = str_int i"

text \<open>Line 119: \<^verbatim>\<open>mem_key = f"memory::{memory_type}::{window_k}"\<close>.\<close>

definition mem_key :: "string \<Rightarrow> int option \<Rightarrow> string" where
  "mem_key mt wk = ''memory::'' @ mt @ ''::'' @ str_window wk"

section \<open>The memory classes of the library\<close>

text \<open>
  The classes \<^verbatim>\<open>ConversationBufferMemory\<close>, \<^verbatim>\<open>ConversationSummaryMemory\<close>,
  \<^verbatim>\<open>ConversationBufferWindowMemory\<close> and \<^verbatim>\<open>ConversationChain\<close> are imported from the
  orchestration library (lines 18--25); their code is not part of the repository. The
  script uses four of their operations: construction (lines 123--131, 153--158),
  \<^verbatim>\<open>clear()\<close> (line 108), \<^verbatim>\<open>chat_memory.messages\<close> (lines 161, 188, 190) and
  \<^verbatim>\<open>predict\<close> (line 177). The definitions of this section write out what these
  operations do in the library, method by method:
  \<^item> a new memory (\<^verbatim>\<open>return_messages=True\<close>) has no messages and an empty summary buffer;
  \<^item> \<^verbatim>\<open>clear()\<close> empties the messages, and the summary buffer with them;
  \<^item> \<^verbatim>\<open>load_memory_variables\<close> gives the history that goes into the prompt: all
    messages (buffer memory), one system message that holds the summary (summary
    memory), \<^verbatim>\<open>messages[-k * 2:] if k > 0 else []\<close> (window memory, whose message list
    itself is never cut);
  \<^item> \<^verbatim>\<open>save_context\<close> appends the human and the ai message to the message list; the
    summary memory does this first and then asks its chat model for the new summary of
    \<^verbatim>\<open>messages[-2:]\<close>, which it stores in its buffer;
  \<^item> \<^verbatim>\<open>predict\<close> loads the history, fills the prompt (the system template, then the
    history, then the new human message), calls the chat model once and, when the call
    has returned, saves the context and returns the text; an exception of the prompt, of
    the chat model or of the summarizer leaves \<^verbatim>\<open>predict\<close> as it was raised.

  The model service is the parameter \<open>call\<close> of these definitions and the prompt
  classes are the parameter \<open>lib\<close>; each definition also returns the requests it has
  issued, in order. The chat model object of lines 126 and 137--142 is the record of the
  arguments the script constructs it with.
\<close>

definition ConversationBufferMemory :: memory where
  "ConversationBufferMemory = \<lparr>kind = BufferMemory, messages = [], buffer = []\<rparr>"

definition ConversationSummaryMemory :: "ChatGroq \<Rightarrow> memory" where
  "ConversationSummaryMemory summarizer_llm =
     \<lparr>kind = SummaryMemory summarizer_llm, messages = [], buffer = []\<rparr>"

definition ConversationBufferWindowMemory :: "int \<Rightarrow> memory" where
  "ConversationBufferWindowMemory k = \<lparr>kind = WindowMemory k, messages = [], buffer = []\<rparr>"

definition clear :: "memory \<Rightarrow> memory" where
  "clear m = m\<lparr>messages := [], buffer := []\<rparr>"

definition load_memory_variables :: "memory \<Rightarrow> message list" where
  "load_memory_variables m =
     (case kind m of
        BufferMemory \<Rightarrow> messages m
      | SummaryMemory _ \<Rightarrow> [SystemMessage (buffer m)]
      | WindowMemory k \<Rightarrow>
          (if k > 0 then drop (length (messages m) - nat (k * 2)) (messages m) else []))"

definition save_context :: "llm \<Rightarrow> memory \<Rightarrow> string \<Rightarrow> string \<Rightarrow> error option \<times> memory \<times> request list" where
  "save_context call m input_str output_str =
     (let m1 = m\<lparr>messages := messages m @ [HumanMessage input_str, AIMessage output_str]\<rparr>
      in case kind m of
           SummaryMemory summarizer_llm \<Rightarrow>
             (let req = SummaryRequest summarizer_llm (buffer m1)
                          (drop (length (messages m1) - 2) (messages m1))
              in case call req of
                   Inl e \<Rightarrow> (Some e, m1, [req])
                 | Inr new_summary \<Rightarrow> (None, m1\<lparr>buffer := new_summary\<rparr>, [req]))
         | _ \<Rightarrow> (None, m1, []))"

text \<open>
  The request of a turn: the chat model, and the prompt of lines 145--151 filled in, that
  is the system message with the text \<open>sys\<close> the system template has become, the history
  the memory gives, and the new message of the user.
\<close>

definition chat_request :: "ChatGroq \<Rightarrow> string \<Rightarrow> memory \<Rightarrow> string \<Rightarrow> request" where
  "chat_request chat_llm sys m input_str =
     ChatRequest chat_llm
       (SystemMessage sys # load_memory_variables m @ [HumanMessage input_str])"

definition predict :: "'p prompts \<Rightarrow> llm \<Rightarrow> ChatGroq \<Rightarrow> 'p \<Rightarrow> memory \<Rightarrow> string \<Rightarrow> (error + string) \<times> memory \<times> request list" where
  "predict lib call chat_llm prompt m input_str =
     (case format_system lib prompt (load_memory_variables m) input_str of
        Inl e \<Rightarrow> (Inl e, m, [])
      | Inr sys \<Rightarrow>
          (let req = chat_request chat_llm sys m input_str
           in case call req of
                Inl e \<Rightarrow> (Inl e, m, [req])
              | Inr output_str \<Rightarrow>
                  (case save_context call m input_str output_str of
                     (Some e, m', reqs) \<Rightarrow> (Inl e, m', req # reqs)
                   | (None, m', reqs) \<Rightarrow> (Inr output_str, m', req # reqs))))"

section \<open>The script\<close>

text \<open>Lines 122--131: the memory object for the current settings.\<close>

definition new_memory :: "inputs \<Rightarrow> memory" where
  "new_memory inp =
     (if memory_type inp = ''Buffer (all)'' then ConversationBufferMemory
      else if memory_type inp = ''Summary (long chats)'' then
        ConversationSummaryMemory
          \<lparr>llm_model_name = model_name inp, llm_temperature = 0,
           llm_max_tokens = None, llm_api_key = GROQ_API_KEY inp\<rparr>
      else if memory_type inp = ''Window (last N)'' then
        ConversationBufferWindowMemory
          (case window_k inp of None \<Rightarrow> 6 | Some k \<Rightarrow> if k = 0 then 6 else k)
      else ConversationBufferMemory)"

text \<open>Lines 119--134: recreate the memory when its type or the window size changes.\<close>

definition init_memory :: "inputs \<Rightarrow> session_state \<Rightarrow> session_state" where
  "init_memory inp s =
     (let key = mem_key (memory_type inp) (window_k inp)
      in if mem_config s = None \<or> mem_config s \<noteq> Some key
         then s\<lparr>memory := Some (new_memory inp), mem_config := Some key\<rparr>
         else s)"

text \<open>Lines 137--142: the chat model of the turn.\<close>

definition chat_llm :: "inputs \<Rightarrow> ChatGroq" where
  "chat_llm inp =
     \<lparr>llm_model_name = model_name inp, llm_temperature = temperature inp,
      llm_max_tokens = Some (max_tokens inp), llm_api_key = GROQ_API_KEY inp\<rparr>"

text \<open>Lines 161--166: the stored history as chat bubbles.\<close>

definition render_history :: "message list \<Rightarrow> ui list" where
  "render_history msgs =
     map (\<lambda>msg. if mtype msg = ''human'' then ChatMessage ''user'' (content msg)
                else ChatMessage ''assistant'' (content msg)) msgs"

text \<open>Lines 181--185: the typing animation; \<^verbatim>\<open>time.sleep\<close> has no effect on the data.\<close>

fun typing :: "string \<Rightarrow> string \<Rightarrow> ui list" where
  "typing accum [] = []"
| "typing accum (ch # rest) = Placeholder (accum @ [ch]) # typing (accum @ [ch]) rest"

text \<open>Python's \<^verbatim>\<open>str.upper\<close> on ASCII letters and \<^verbatim>\<open>sep.join\<close>.\<close>

definition upper_char :: "char \<Rightarrow> char" where
  "upper_char c =
     (case map_of (zip ''abcdefghijklmnopqrstuvwxyz'' ''ABCDEFGHIJKLMNOPQRSTUVWXYZ'') c of
        None \<Rightarrow> c
      | Some C \<Rightarrow> C)"

definition upper :: "string \<Rightarrow> string" where
  "upper s = map upper_char s"

fun join :: "string \<Rightarrow> string list \<Rightarrow> string" where
  "join sep [] = []"
| "join sep [x] = x"
| "join sep (x # y # ys) = x @ sep @ join sep (y # ys)"

definition newline :: char where
  "newline = CHR 0x0A"

text \<open>Lines 189--193: the transcript.\<close>

definition history_line :: "message \<Rightarrow> string" where
  "history_line m = upper (mtype m) @ '': '' @ content m"

definition history_text :: "message list \<Rightarrow> string" where
  "history_text msgs = join [newline, newline] (map history_line msgs)"

text \<open>Lines 188--201: the download button, offered when there are messages.\<close>

definition download :: "message list \<Rightarrow> ui list" where
  "download msgs = (if msgs \<noteq> [] then [DownloadButton (history_text msgs)] else [])"

text \<open>
  One execution of the script, in the order of its lines:
  \<^item> lines 106--110: a press of Clear Chat clears the memory object if the session state
    has one, shows the success message and ends the run in \<^verbatim>\<open>st.rerun()\<close>;
  \<^item> lines 113--115: an empty API key shows the warning and ends the run in \<^verbatim>\<open>st.stop()\<close>;
  \<^item> lines 119--134: the memory object is recreated when the configuration key changed;
  \<^item> lines 145--151: the prompt is made from the system prompt, or this raises;
  \<^item> lines 153--158: \<^verbatim>\<open>st.session_state.memory\<close> is read, which raises when the entry is
    missing, and the chain is constructed, which raises when it refuses the prompt;
  \<^item> lines 161--166: the stored messages are drawn;
  \<^item> lines 172--185: a message of the user is drawn and answered by \<^verbatim>\<open>predict\<close>, whose
    exception is not caught; the full response is then typed into the placeholder;
  \<^item> lines 188--201: the download button.

  No exception is caught anywhere in the script: whatever is raised ends the run. The
  memory object is mutated in place by \<^verbatim>\<open>clear\<close> and \<^verbatim>\<open>predict\<close>; here the new object is
  put back into the session state. The texts of the page elements are written without
  their emoji.
\<close>

definition run :: "'p prompts \<Rightarrow> llm \<Rightarrow> inputs \<Rightarrow> session_state \<Rightarrow> run_result" where
  "run lib call inp s =
     (if clear_chat inp then
        \<lparr>state = (case memory s of None \<Rightarrow> s | Some m \<Rightarrow> s\<lparr>memory := Some (clear m)\<rparr>),
         shown = [Success ''Chat history cleared!''],
         requests = [], outcome = Rerun\<rparr>
      else if GROQ_API_KEY inp = [] then
        \<lparr>state = s,
         shown = [Warning ''Please enter your Groq API key in the sidebar to start chatting.''],
         requests = [], outcome = Stopped\<rparr>
      else
        (let s1 = init_memory inp s
         in case from_messages lib (system_prompt inp) of
              Inl e \<Rightarrow> \<lparr>state = s1, shown = [], requests = [], outcome = Raised e\<rparr>
            | Inr prompt \<Rightarrow>
               (case memory s1 of
                  None \<Rightarrow>
                    \<lparr>state = s1, shown = [], requests = [], outcome = Raised AttributeError\<rparr>
                | Some m \<Rightarrow>
                   (case conversation_chain lib (chat_llm inp) m prompt of
                      Some e \<Rightarrow> \<lparr>state = s1, shown = [], requests = [], outcome = Raised e\<rparr>
                    | None \<Rightarrow>
                       (let bubbles = render_history (messages m)
                        in if user_input inp \<noteq> None \<and> user_input inp \<noteq> Some [] then
                             (let u = the (user_input inp)
                              in case predict lib call (chat_llm inp) prompt m u of
                                   (Inl e, m', reqs) \<Rightarrow>
                                     \<lparr>state = s1\<lparr>memory := Some m'\<rparr>,
                                      shown = bubbles @ [ChatMessage ''user'' u],
                                      requests = reqs, outcome = Raised e\<rparr>
                                 | (Inr full_response, m', reqs) \<Rightarrow>
                                     \<lparr>state = s1\<lparr>memory := Some m'\<rparr>,
                                      shown = bubbles @ [ChatMessage ''user'' u]
                                              @ typing [] full_response
                                              @ download (messages m'),
                                      requests = reqs, outcome = Completed\<rparr>)
                           else
                             \<lparr>state = s1, shown = bubbles @ download (messages m),
                              requests = [], outcome = Completed\<rparr>)))))"

text \<open>
  \<^verbatim>\<open>st.rerun()\<close> starts the script again at once: the button is no longer pressed and
  the chat input holds nothing; the other widgets keep their values.
\<close>

definition interact :: "'p prompts \<Rightarrow> llm \<Rightarrow> inputs \<Rightarrow> session_state \<Rightarrow> run_result" where
  "interact lib call inp s =
     (let r = run lib call inp s
      in if outcome r = Rerun then
           (let r2 = run lib call (inp\<lparr>clear_chat := False, user_input := None\<rparr>) (state r)
            in r2\<lparr>requests := requests r @ requests r2\<rparr>)
         else r)"

text \<open>The messages the session holds (none before a memory object exists).\<close>

definition stored_messages :: "session_state \<Rightarrow> message list" where
  "stored_messages s = (case memory s of None \<Rightarrow> [] | Some m \<Rightarrow> messages m)"

section \<open>Sessions: one rerun after another\<close>

text \<open>
  A session is a list of reruns, each with the widget values of that rerun and the
  behaviour of the model service during it; the prompt classes are the same throughout. \<open>session_after\<close> is the session state they
  leave behind.
\<close>

fun session_after :: "'p prompts \<Rightarrow> (llm \<times> inputs) list \<Rightarrow> session_state \<Rightarrow> session_state" where
  "session_after lib [] s = s"
| "session_after lib ((call, inp) # rest) s = session_after lib rest (state (run lib call inp s))"

text \<open>Line 172, \<^verbatim>\<open>if user_input:\<close>: the rerun carries a message of the user.\<close>

definition submitted :: "inputs \<Rightarrow> bool" where
  "submitted inp = (user_input inp \<noteq> None \<and> user_input inp \<noteq> Some [])"

text \<open>
  A turn is completed when \<^verbatim>\<open>predict\<close> returned and the script ran to its end. It has
  failed after the completion when an exception escaped although the completion call
  had returned: the second request of the run, the summarizer's, raised it.
\<close>

definition turn_completed :: "inputs \<Rightarrow> run_result \<Rightarrow> bool" where
  "turn_completed inp r = (submitted inp \<and> outcome r = Completed)"

definition turn_failed :: "inputs \<Rightarrow> run_result \<Rightarrow> bool" where
  "turn_failed inp r = (submitted inp \<and> outcome r \<noteq> Completed)"

definition turn_failed_in_summary :: "inputs \<Rightarrow> run_result \<Rightarrow> bool" where
  "turn_failed_in_summary inp r = (turn_failed inp r \<and> length (requests r) = 2)"

fun count_runs :: "'p prompts \<Rightarrow> (inputs \<Rightarrow> run_result \<Rightarrow> bool) \<Rightarrow> (llm \<times> inputs) list \<Rightarrow> session_state \<Rightarrow> nat" where
  "count_runs lib P [] s = 0"
| "count_runs lib P ((call, inp) # rest) s =
     (if P inp (run lib call inp s) then 1 else 0)
     + count_runs lib P rest (state (run lib call inp s))"

text \<open>The reruns of a list all have the same memory settings and none presses Clear Chat.\<close>

definition same_config :: "string \<Rightarrow> int option \<Rightarrow> (llm \<times> inputs) list \<Rightarrow> bool" where
  "same_config mt wk steps =
     list_all (\<lambda>(call, inp). memory_type inp = mt \<and> window_k inp = wk \<and> \<not> clear_chat inp) steps"

text \<open>The options of the memory selectbox (line 95).\<close>

definition memory_types :: "string list" where
  "memory_types = [''Buffer (all)'', ''Summary (long chats)'', ''Window (last N)'']"

section \<open>Reading a transcript back\<close>

text \<open>
  Python's \<^verbatim>\<open>text.split("\n\n")\<close>: the text is cut at every blank-line separator, found
  from left to right; \<open>acc\<close> is the entry read so far.
\<close>

fun split_blank :: "string \<Rightarrow> string \<Rightarrow> string list" where
  "split_blank acc (c # d # rest) =
     (if c = newline \<and> d = newline then acc # split_blank [] rest
      else split_blank (acc @ [c]) (d # rest))"
| "split_blank acc [c] = [acc @ [c]]"
| "split_blank acc [] = [acc]"

section \<open>What the page shows and what a session keeps\<close>

text \<open>The successive contents of the typing placeholder among the elements of a page.\<close>

fun placeholders :: "ui list \<Rightarrow> string list" where
  "placeholders [] = []"
| "placeholders (Placeholder p # rest) = p # placeholders rest"
| "placeholders (x # rest) = placeholders rest"

text \<open>
  The settings a memory object was made for (lines 122--131), and the session states in
  which the recorded key and the memory object belong to the settings \<open>mt\<close> and \<open>wk\<close>:
  nothing is recorded yet, or both entries are there and fit.
\<close>

definition kind_fits :: "string \<Rightarrow> int option \<Rightarrow> mem_kind \<Rightarrow> bool" where
  "kind_fits mt wk k =
     (case k of
        BufferMemory \<Rightarrow> mt \<noteq> ''Summary (long chats)'' \<and> mt \<noteq> ''Window (last N)''
      | SummaryMemory summarizer_llm \<Rightarrow> mt = ''Summary (long chats)''
      | WindowMemory n \<Rightarrow>
          mt = ''Window (last N)''
          \<and> n = (case wk of None \<Rightarrow> 6 | Some k \<Rightarrow> if k = 0 then 6 else k))"

definition configured :: "string \<Rightarrow> int option \<Rightarrow> session_state \<Rightarrow> bool" where
  "configured mt wk s =
     (case memory s of
        None \<Rightarrow> mem_config s = None
      | Some m \<Rightarrow> mem_config s = Some (mem_key mt wk) \<and> kind_fits mt wk (kind m))"

section \<open>Example sessions\<close>

text \<open>Session states: a new session, and sessions that hold one exchange.\<close>

definition fresh_session :: session_state where
  "fresh_session = \<lparr>memory = None, mem_config = None\<rparr>"

definition greeting :: "message list" where
  "greeting = [HumanMessage ''Hi'', AIMessage ''Hello!'']"

definition chatting_memory :: memory where
  "chatting_memory = \<lparr>kind = BufferMemory, messages = greeting, buffer = []\<rparr>"

definition chatting_session :: session_state where
  "chatting_session =
     \<lparr>memory = Some chatting_memory, mem_config = Some (mem_key ''Buffer (all)'' None)\<rparr>"

definition summary_llm :: ChatGroq where
  "summary_llm =
     \<lparr>llm_model_name = ''gemma2-9b-it'', llm_temperature = 0, llm_max_tokens = None,
      llm_api_key = ''gsk-example''\<rparr>"

definition summary_memory :: memory where
  "summary_memory =
     \<lparr>kind = SummaryMemory summary_llm, messages = greeting, buffer = ''A greeting.''\<rparr>"


definition summary_session :: session_state where
  "summary_session =
     \<lparr>memory = Some summary_memory, mem_config = Some (mem_key ''Summary (long chats)'' None)\<rparr>"

definition blank_line_session :: "message list" where
  "blank_line_session = [HumanMessage [CHR ''a'', newline, newline, CHR ''b'']]"

text \<open>Widget values.\<close>

definition example_inputs :: inputs where
  "example_inputs =
     \<lparr>GROQ_API_KEY = ''gsk-example'', model_name = ''gemma2-9b-it'', temperature = 7 / 10,
      max_tokens = 512, system_prompt = ''Be brief.'', memory_type = ''Buffer (all)'',
      window_k = None, clear_chat = False, user_input = None\<rparr>"

definition hi_turn :: inputs where
  "hi_turn = example_inputs\<lparr>user_input := Some ''Hi''\<rparr>"

definition next_turn :: inputs where
  "next_turn = example_inputs\<lparr>user_input := Some ''More''\<rparr>"

definition press_clear :: inputs where
  "press_clear = example_inputs\<lparr>clear_chat := True\<rparr>"

definition no_key_turn :: inputs where
  "no_key_turn = example_inputs\<lparr>GROQ_API_KEY := [], user_input := Some ''Hi''\<rparr>"

definition invalid_key_turn :: inputs where
  "invalid_key_turn = example_inputs\<lparr>GROQ_API_KEY := ''not-a-key'', user_input := Some ''Hi''\<rparr>"

definition switch_to_window :: inputs where
  "switch_to_window = example_inputs\<lparr>memory_type := ''Window (last N)'', window_k := Some 6\<rparr>"

definition switch_without_key :: inputs where
  "switch_without_key = switch_to_window\<lparr>GROQ_API_KEY := []\<rparr>"

definition summary_turn :: inputs where
  "summary_turn =
     example_inputs\<lparr>memory_type := ''Summary (long chats)'', user_input := Some ''Hi''\<rparr>"

definition other_model_turn :: inputs where
  "other_model_turn =
     example_inputs\<lparr>GROQ_API_KEY := ''gsk-other'', model_name := ''llama-3.3-70b-versatile'',
       temperature := 1 / 5, system_prompt := ''Translate.'',
       memory_type := ''Summary (long chats)'', user_input := Some ''More''\<rparr>"

definition other_model_idle :: inputs where
  "other_model_idle = other_model_turn\<lparr>user_input := None\<rparr>"

definition field_prompt_turn :: inputs where
  "field_prompt_turn = hi_turn\<lparr>system_prompt := ''Use {x}''\<rparr>"

definition doubled_brace_turn :: inputs where
  "doubled_brace_turn = hi_turn\<lparr>system_prompt := ''a{{b}}''\<rparr>"

definition window_say :: "string \<Rightarrow> inputs" where
  "window_say u =
     example_inputs\<lparr>memory_type := ''Window (last N)'', window_k := Some 2,
       user_input := Some u\<rparr>"

text \<open>
  A prompt library for the examples. It knows system prompts without a field: a doubled
  brace stands for a brace, as in the templates of the library, and a text with any other
  brace is refused. (The library itself also takes the fields of the history and of the
  input, which no example uses.)
\<close>

fun unescape :: "string \<Rightarrow> string option" where
  "unescape (c # d # rest) =
     (if (c = CHR ''{'' \<and> d = CHR ''{'') \<or> (c = CHR ''}'' \<and> d = CHR ''}'')
      then map_option (Cons c) (unescape rest)
      else if c = CHR ''{'' \<or> c = CHR ''}'' then None
      else map_option (Cons c) (unescape (d # rest)))"
| "unescape [c] = (if c = CHR ''{'' \<or> c = CHR ''}'' then None else Some [c])"
| "unescape [] = Some []"

definition plain_prompts :: "string prompts" where
  "plain_prompts =
     \<lparr>from_messages =
        (\<lambda>sp. case unescape sp of
                None \<Rightarrow> Inl (ValueError ''unexpected brace in the system prompt'')
              | Some text \<Rightarrow> Inr text),
      conversation_chain = (\<lambda>chat m prompt. None),
      format_system = (\<lambda>prompt history input_str. Inr prompt)\<rparr>"

text \<open>
  Model services: one that answers every request, one that rejects every request, one
  that answers with an echo of the last message, one whose completions work while its
  summaries fail, and one that answers the requests made with the key \<^verbatim>\<open>gsk-example\<close>
  and rejects the others.
\<close>

definition answering :: llm where
  "answering req = Inr ''Hello!''"

definition rejecting :: llm where
  "rejecting req = Inl (ApiError ''invalid api key'')"

definition echoing :: llm where
  "echoing req =
     (case req of
        ChatRequest chat prompt \<Rightarrow> Inr (''re: '' @ content (last prompt))
      | SummaryRequest chat summary new_lines \<Rightarrow> Inr ''A summary.'')"


definition summarizer_down :: llm where
  "summarizer_down req =
     (case req of
        ChatRequest chat prompt \<Rightarrow> Inr ''Hello!''
      | SummaryRequest chat summary new_lines \<Rightarrow> Inl (ApiError ''rate limit reached''))"

text \<open>Sequences of reruns.\<close>

definition three_turns :: "(llm \<times> inputs) list" where
  "three_turns = [(answering, hi_turn), (rejecting, next_turn), (answering, next_turn)]"

definition window_turns :: "(llm \<times> inputs) list" where
  "window_turns =
     [(echoing, window_say ''one''), (echoing, window_say ''two''),
      (rejecting, window_say ''lost''), (echoing, window_say ''three'')]"

section \<open>The steps of a rerun\<close>

lemma new_memory_messages: "messages (new_memory inp) = []"
  by (simp add: new_memory_def ConversationBufferMemory_def ConversationSummaryMemory_def
      ConversationBufferWindowMemory_def)

lemma init_memory_same:
  "mem_config s = Some (mem_key (memory_type inp) (window_k inp)) \<Longrightarrow> init_memory inp s = s"
  by (simp add: init_memory_def)

lemma init_memory_changed:
  "mem_config s \<noteq> Some (mem_key (memory_type inp) (window_k inp)) \<Longrightarrow>
   init_memory inp s =
     \<lparr>memory = Some (new_memory inp),
      mem_config = Some (mem_key (memory_type inp) (window_k inp))\<rparr>"
  by (cases s) (simp add: init_memory_def)

lemma init_memory_config:
  "mem_config (init_memory inp s) = Some (mem_key (memory_type inp) (window_k inp))"
  by (simp add: init_memory_def Let_def)

lemma stored_init_memory:
  "stored_messages s = [] \<Longrightarrow> stored_messages (init_memory inp s) = []"
  by (simp add: init_memory_def Let_def stored_messages_def new_memory_messages)

lemma memory_put_back: "memory s = Some m \<Longrightarrow> s\<lparr>memory := Some m\<rparr> = s"
  by (cases s) simp

lemma run_clear:
  "clear_chat inp \<Longrightarrow> run lib call inp s =
     \<lparr>state = (case memory s of None \<Rightarrow> s | Some m \<Rightarrow> s\<lparr>memory := Some (clear m)\<rparr>),
      shown = [Success ''Chat history cleared!''], requests = [], outcome = Rerun\<rparr>"
  by (simp add: run_def)

lemma run_no_key:
  "\<not> clear_chat inp \<Longrightarrow> GROQ_API_KEY inp = [] \<Longrightarrow> run lib call inp s =
     \<lparr>state = s,
      shown = [Warning ''Please enter your Groq API key in the sidebar to start chatting.''],
      requests = [], outcome = Stopped\<rparr>"
  by (simp add: run_def)

lemma predict_format_fails:
  "format_system lib p (load_memory_variables m) u = Inl e \<Longrightarrow>
   predict lib call cfg p m u = (Inl e, m, [])"
  by (simp add: predict_def)

lemma predict_chat_fails:
  "format_system lib p (load_memory_variables m) u = Inr sys \<Longrightarrow>
   call (chat_request cfg sys m u) = Inl e \<Longrightarrow>
   predict lib call cfg p m u = (Inl e, m, [chat_request cfg sys m u])"
  by (simp add: predict_def)

lemma predict_plain:
  "format_system lib p (load_memory_variables m) u = Inr sys \<Longrightarrow>
   call (chat_request cfg sys m u) = Inr out \<Longrightarrow> (\<forall>c. kind m \<noteq> SummaryMemory c) \<Longrightarrow>
   predict lib call cfg p m u =
     (Inr out, m\<lparr>messages := messages m @ [HumanMessage u, AIMessage out]\<rparr>,
      [chat_request cfg sys m u])"
  by (cases "kind m") (simp_all add: predict_def save_context_def Let_def)

lemma predict_summary_ok:
  "format_system lib p (load_memory_variables m) u = Inr sys \<Longrightarrow>
   call (chat_request cfg sys m u) = Inr out \<Longrightarrow> kind m = SummaryMemory c \<Longrightarrow>
   call (SummaryRequest c (buffer m) [HumanMessage u, AIMessage out]) = Inr b \<Longrightarrow>
   predict lib call cfg p m u =
     (Inr out, m\<lparr>messages := messages m @ [HumanMessage u, AIMessage out], buffer := b\<rparr>,
      [chat_request cfg sys m u, SummaryRequest c (buffer m) [HumanMessage u, AIMessage out]])"
  by (simp add: predict_def save_context_def Let_def)

lemma predict_summary_fails:
  "format_system lib p (load_memory_variables m) u = Inr sys \<Longrightarrow>
   call (chat_request cfg sys m u) = Inr out \<Longrightarrow> kind m = SummaryMemory c \<Longrightarrow>
   call (SummaryRequest c (buffer m) [HumanMessage u, AIMessage out]) = Inl e \<Longrightarrow>
   predict lib call cfg p m u =
     (Inl e, m\<lparr>messages := messages m @ [HumanMessage u, AIMessage out]\<rparr>,
      [chat_request cfg sys m u, SummaryRequest c (buffer m) [HumanMessage u, AIMessage out]])"
  by (simp add: predict_def save_context_def Let_def)

text \<open>
  Every way a rerun can go once it has passed the button and the key check: the prompt
  is refused when it is made, the memory entry is missing, the chain refuses the prompt,
  there is no message of the user, the prompt cannot be filled in, the completion call
  fails, the turn completes, or the summarizer call fails after the completion.
\<close>

lemma run_cases:
  assumes "\<not> clear_chat inp" and "GROQ_API_KEY inp \<noteq> []"
  obtains
    (prompt_raises) e where
      "from_messages lib (system_prompt inp) = Inl e"
      "run lib call inp s =
         \<lparr>state = init_memory inp s, shown = [], requests = [], outcome = Raised e\<rparr>"
  | (no_memory) p where
      "from_messages lib (system_prompt inp) = Inr p"
      "memory (init_memory inp s) = None"
      "run lib call inp s =
         \<lparr>state = init_memory inp s, shown = [], requests = [], outcome = Raised AttributeError\<rparr>"
  | (chain_raises) p m e where
      "from_messages lib (system_prompt inp) = Inr p"
      "memory (init_memory inp s) = Some m"
      "conversation_chain lib (chat_llm inp) m p = Some e"
      "run lib call inp s =
         \<lparr>state = init_memory inp s, shown = [], requests = [], outcome = Raised e\<rparr>"
  | (idle) p m where
      "from_messages lib (system_prompt inp) = Inr p"
      "memory (init_memory inp s) = Some m"
      "conversation_chain lib (chat_llm inp) m p = None"
      "\<not> submitted inp"
      "run lib call inp s =
         \<lparr>state = init_memory inp s,
          shown = render_history (messages m) @ download (messages m),
          requests = [], outcome = Completed\<rparr>"
  | (format_raises) p m u e where
      "from_messages lib (system_prompt inp) = Inr p"
      "memory (init_memory inp s) = Some m"
      "conversation_chain lib (chat_llm inp) m p = None"
      "user_input inp = Some u" "u \<noteq> []"
      "format_system lib p (load_memory_variables m) u = Inl e"
      "run lib call inp s =
         \<lparr>state = init_memory inp s,
          shown = render_history (messages m) @ [ChatMessage ''user'' u],
          requests = [], outcome = Raised e\<rparr>"
  | (call_raises) p m u sys e where
      "from_messages lib (system_prompt inp) = Inr p"
      "memory (init_memory inp s) = Some m"
      "conversation_chain lib (chat_llm inp) m p = None"
      "user_input inp = Some u" "u \<noteq> []"
      "format_system lib p (load_memory_variables m) u = Inr sys"
      "call (chat_request (chat_llm inp) sys m u) = Inl e"
      "run lib call inp s =
         \<lparr>state = init_memory inp s,
          shown = render_history (messages m) @ [ChatMessage ''user'' u],
          requests = [chat_request (chat_llm inp) sys m u], outcome = Raised e\<rparr>"
  | (completed) p m u sys out m' reqs where
      "from_messages lib (system_prompt inp) = Inr p"
      "memory (init_memory inp s) = Some m"
      "conversation_chain lib (chat_llm inp) m p = None"
      "user_input inp = Some u" "u \<noteq> []"
      "format_system lib p (load_memory_variables m) u = Inr sys"
      "call (chat_request (chat_llm inp) sys m u) = Inr out"
      "kind m' = kind m"
      "messages m' = messages m @ [HumanMessage u, AIMessage out]"
      "(reqs = [] \<and> (\<forall>c. kind m \<noteq> SummaryMemory c))
       \<or> (\<exists>c. kind m = SummaryMemory c
              \<and> reqs = [SummaryRequest c (buffer m) [HumanMessage u, AIMessage out]])"
      "run lib call inp s =
         \<lparr>state = (init_memory inp s)\<lparr>memory := Some m'\<rparr>,
          shown = render_history (messages m) @ [ChatMessage ''user'' u]
                  @ typing [] out @ download (messages m'),
          requests = chat_request (chat_llm inp) sys m u # reqs, outcome = Completed\<rparr>"
  | (summary_raises) p m u sys out c e where
      "from_messages lib (system_prompt inp) = Inr p"
      "memory (init_memory inp s) = Some m"
      "conversation_chain lib (chat_llm inp) m p = None"
      "user_input inp = Some u" "u \<noteq> []"
      "format_system lib p (load_memory_variables m) u = Inr sys"
      "call (chat_request (chat_llm inp) sys m u) = Inr out"
      "kind m = SummaryMemory c"
      "call (SummaryRequest c (buffer m) [HumanMessage u, AIMessage out]) = Inl e"
      "run lib call inp s =
         \<lparr>state = (init_memory inp s)
                   \<lparr>memory := Some (m\<lparr>messages := messages m @ [HumanMessage u, AIMessage out]\<rparr>)\<rparr>,
          shown = render_history (messages m) @ [ChatMessage ''user'' u],
          requests = [chat_request (chat_llm inp) sys m u,
                      SummaryRequest c (buffer m) [HumanMessage u, AIMessage out]],
          outcome = Raised e\<rparr>"
proof (cases "from_messages lib (system_prompt inp)")
  case (Inl e)
  with assms have "run lib call inp s =
      \<lparr>state = init_memory inp s, shown = [], requests = [], outcome = Raised e\<rparr>"
    by (simp add: run_def)
  with Inl show ?thesis by (rule prompt_raises)
next
  case p: (Inr p)
  show ?thesis
  proof (cases "memory (init_memory inp s)")
    case None
    with assms p have "run lib call inp s =
        \<lparr>state = init_memory inp s, shown = [], requests = [], outcome = Raised AttributeError\<rparr>"
      by (simp add: run_def)
    with p None show ?thesis by (rule no_memory)
  next
    case m: (Some m)
    have put: "(init_memory inp s)\<lparr>memory := Some m\<rparr> = init_memory inp s"
      using m by (rule memory_put_back)
    show ?thesis
    proof (cases "conversation_chain lib (chat_llm inp) m p")
      case (Some e)
      with assms p m have "run lib call inp s =
          \<lparr>state = init_memory inp s, shown = [], requests = [], outcome = Raised e\<rparr>"
        by (simp add: run_def)
      with p m Some show ?thesis by (rule chain_raises)
    next
      case ok: None
      show ?thesis
      proof (cases "submitted inp")
        case False
        with assms p m ok have "run lib call inp s =
            \<lparr>state = init_memory inp s,
             shown = render_history (messages m) @ download (messages m),
             requests = [], outcome = Completed\<rparr>"
          by (auto simp add: run_def submitted_def)
        with p m ok False show ?thesis by (rule idle)
      next
        case True
        then obtain u where u: "user_input inp = Some u" "u \<noteq> []"
          by (auto simp add: submitted_def)
        have r: "run lib call inp s =
           (case predict lib call (chat_llm inp) p m u of
              (Inl e, m', reqs) \<Rightarrow>
                \<lparr>state = (init_memory inp s)\<lparr>memory := Some m'\<rparr>,
                 shown = render_history (messages m) @ [ChatMessage ''user'' u],
                 requests = reqs, outcome = Raised e\<rparr>
            | (Inr full_response, m', reqs) \<Rightarrow>
                \<lparr>state = (init_memory inp s)\<lparr>memory := Some m'\<rparr>,
                 shown = render_history (messages m) @ [ChatMessage ''user'' u]
                         @ typing [] full_response @ download (messages m'),
                 requests = reqs, outcome = Completed\<rparr>)"
          using assms p m ok u by (simp add: run_def Let_def)
        show ?thesis
        proof (cases "format_system lib p (load_memory_variables m) u")
          case (Inl e)
          then have "run lib call inp s =
              \<lparr>state = init_memory inp s,
               shown = render_history (messages m) @ [ChatMessage ''user'' u],
               requests = [], outcome = Raised e\<rparr>"
            by (simp add: r predict_format_fails put)
          with p m ok u Inl show ?thesis by (rule format_raises)
        next
          case sys: (Inr sys)
          let ?req = "chat_request (chat_llm inp) sys m u"
          show ?thesis
          proof (cases "call ?req")
            case (Inl e)
            with sys have "run lib call inp s =
                \<lparr>state = init_memory inp s,
                 shown = render_history (messages m) @ [ChatMessage ''user'' u],
                 requests = [?req], outcome = Raised e\<rparr>"
              by (simp add: r predict_chat_fails put)
            with p m ok u sys Inl show ?thesis by (rule call_raises)
          next
            case out: (Inr out)
            let ?m1 = "m\<lparr>messages := messages m @ [HumanMessage u, AIMessage out]\<rparr>"
            show ?thesis
            proof (cases "\<exists>c. kind m = SummaryMemory c")
              case False
              then have ns: "\<forall>c. kind m \<noteq> SummaryMemory c" by simp
              have "run lib call inp s =
                  \<lparr>state = (init_memory inp s)\<lparr>memory := Some ?m1\<rparr>,
                   shown = render_history (messages m) @ [ChatMessage ''user'' u]
                           @ typing [] out @ download (messages ?m1),
                   requests = ?req # [], outcome = Completed\<rparr>"
                using sys out ns by (simp add: r predict_plain)
              moreover have "kind ?m1 = kind m"
                "messages ?m1 = messages m @ [HumanMessage u, AIMessage out]" by simp_all
              moreover have "([] = [] \<and> (\<forall>c. kind m \<noteq> SummaryMemory c))
                \<or> (\<exists>c. kind m = SummaryMemory c
                      \<and> [] = [SummaryRequest c (buffer m) [HumanMessage u, AIMessage out]])"
                using ns by simp
              ultimately show ?thesis
                using p m ok u sys out by (intro completed [of p m u sys out ?m1 "[]"])
            next
              case True
              then obtain c where c: "kind m = SummaryMemory c" by blast
              let ?sreq = "SummaryRequest c (buffer m) [HumanMessage u, AIMessage out]"
              show ?thesis
              proof (cases "call ?sreq")
                case (Inl e)
                with sys out c have "run lib call inp s =
                    \<lparr>state = (init_memory inp s)\<lparr>memory := Some ?m1\<rparr>,
                     shown = render_history (messages m) @ [ChatMessage ''user'' u],
                     requests = [?req, ?sreq], outcome = Raised e\<rparr>"
                  by (simp add: r predict_summary_fails [of lib p m u sys call _ out c])
                with p m ok u sys out c Inl show ?thesis by (rule summary_raises)
              next
                case (Inr b)
                let ?m2 = "?m1\<lparr>buffer := b\<rparr>"
                have "run lib call inp s =
                    \<lparr>state = (init_memory inp s)\<lparr>memory := Some ?m2\<rparr>,
                     shown = render_history (messages m) @ [ChatMessage ''user'' u]
                             @ typing [] out @ download (messages ?m2),
                     requests = ?req # [?sreq], outcome = Completed\<rparr>"
                  using sys out c Inr
                  by (simp add: r predict_summary_ok [of lib p m u sys call _ out c])
                moreover have "kind ?m2 = kind m"
                  "messages ?m2 = messages m @ [HumanMessage u, AIMessage out]" by simp_all
                moreover have "([?sreq] = [] \<and> (\<forall>c. kind m \<noteq> SummaryMemory c))
                  \<or> (\<exists>c'. kind m = SummaryMemory c'
                        \<and> [?sreq] = [SummaryRequest c' (buffer m) [HumanMessage u, AIMessage out]])"
                  using c by simp
                ultimately show ?thesis
                  using p m ok u sys out by (intro completed [of p m u sys out ?m2 "[?sreq]"])
              qed
            qed
          qed
        qed
      qed
    qed
  qed
qed

lemma run_state_idle:
  assumes "\<not> clear_chat inp" and "GROQ_API_KEY inp \<noteq> []" and "\<not> submitted inp"
  shows "state (run lib call inp s) = init_memory inp s"
  using assms(1,2)
  by (cases rule: run_cases [where lib = lib and call = call and s = s])
     (use assms(3) in \<open>simp_all add: submitted_def\<close>)

text \<open>
  The two ways a system prompt with braces goes, with the example library: a prompt with
  a field is refused before anything is drawn or requested, and a doubled brace reaches
  the service as a single one.
\<close>

lemma field_prompt_raises:
  "run plain_prompts answering field_prompt_turn fresh_session =
     \<lparr>state = init_memory field_prompt_turn fresh_session, shown = [], requests = [],
      outcome = Raised (ValueError ''unexpected brace in the system prompt'')\<rparr>"
  by (simp add: run_def field_prompt_turn_def hi_turn_def example_inputs_def plain_prompts_def)

lemma doubled_brace_unescaped:
  "requests (run plain_prompts answering doubled_brace_turn fresh_session) =
     [ChatRequest (chat_llm doubled_brace_turn) [SystemMessage ''a{b}'', HumanMessage ''Hi'']]"
  by (simp add: run_def doubled_brace_turn_def hi_turn_def example_inputs_def plain_prompts_def
      fresh_session_def init_memory_def new_memory_def ConversationBufferMemory_def
      predict_def chat_request_def load_memory_variables_def answering_def save_context_def
      Let_def)

section \<open>The sidebar: Clear Chat and the key check\<close>

text \<open>
  C10. Pressing Clear Chat while the session state holds no memory object raises nothing
  and leaves the session state as it was: the run ends in \<^verbatim>\<open>st.rerun()\<close>, and when no
  API key has been entered the rerun that follows stops at the key check with the
  state still unchanged.
\<close>

theorem clear_chat_without_memory:
  assumes "clear_chat inp" and "memory s = None"
  shows "outcome (run lib call inp s) = Rerun \<and> state (run lib call inp s) = s
         \<and> (GROQ_API_KEY inp = [] \<longrightarrow>
              outcome (interact lib call inp s) = Stopped
              \<and> state (interact lib call inp s) = s)"
  using assms by (simp add: run_clear run_no_key interact_def)

theorem clear_chat_without_memory_witness:
  "clear_chat (no_key_turn\<lparr>clear_chat := True\<rparr>)
   \<and> memory fresh_session = None
   \<and> GROQ_API_KEY (no_key_turn\<lparr>clear_chat := True\<rparr>) = []
   \<and> outcome (run plain_prompts answering (no_key_turn\<lparr>clear_chat := True\<rparr>) fresh_session)
       = Rerun
   \<and> state (run plain_prompts answering (no_key_turn\<lparr>clear_chat := True\<rparr>) fresh_session)
       = fresh_session
   \<and> outcome (interact plain_prompts answering (no_key_turn\<lparr>clear_chat := True\<rparr>)
        fresh_session) = Stopped
   \<and> state (interact plain_prompts answering (no_key_turn\<lparr>clear_chat := True\<rparr>)
        fresh_session) = fresh_session"
proof -
  have h: "clear_chat (no_key_turn\<lparr>clear_chat := True\<rparr>)" "memory fresh_session = None"
    "GROQ_API_KEY (no_key_turn\<lparr>clear_chat := True\<rparr>) = []"
    by (simp_all add: no_key_turn_def example_inputs_def fresh_session_def)
  show ?thesis
    using clear_chat_without_memory [OF h(1,2), of plain_prompts answering] h by blast
qed

section \<open>The download button and Clear Chat\<close>

lemma no_download_in_history: "DownloadButton d \<notin> set (render_history msgs)"
  by (auto simp add: render_history_def)

lemma no_download_in_typing: "DownloadButton d \<notin> set (typing accum r)"
  by (induction r arbitrary: accum) auto

lemma run_download:
  assumes "DownloadButton d \<in> set (shown (run lib call inp s))"
  shows "stored_messages (state (run lib call inp s)) \<noteq> []
       \<and> d = history_text (stored_messages (state (run lib call inp s)))"
proof -
  have nc: "\<not> clear_chat inp" and key: "GROQ_API_KEY inp \<noteq> []"
    using assms by (auto simp add: run_def split: if_splits)
  from nc key show ?thesis
  proof (cases rule: run_cases [where lib = lib and call = call and s = s])
    case (idle p m)
    with assms show ?thesis
      by (auto simp add: stored_messages_def download_def no_download_in_history
          split: if_splits)
  next
    case (completed p m u sys out m' reqs)
    with assms show ?thesis
      by (auto simp add: stored_messages_def download_def no_download_in_history
          no_download_in_typing split: if_splits)
  qed (use assms in \<open>simp_all add: no_download_in_history\<close>)
qed

lemma rerun_after_clear:
  assumes "stored_messages s = []" and "\<not> clear_chat inp" and "\<not> submitted inp"
  shows "stored_messages (state (run lib call inp s)) = []"
proof (cases "GROQ_API_KEY inp = []")
  case True
  with assms show ?thesis by (simp add: run_no_key)
next
  case False
  with assms have "state (run lib call inp s) = init_memory inp s"
    by (simp add: run_state_idle)
  with assms show ?thesis by (simp add: stored_init_memory)
qed

text \<open>
  C7. Pressing Clear Chat in a session that holds messages empties the message list;
  the run ends in \<^verbatim>\<open>st.rerun()\<close>, and the rerun that follows still has an empty
  list and shows no download button. In every run the download button is on the page only
  when the stored message list is not empty.
\<close>

theorem clear_chat_empties:
  assumes "clear_chat inp" and "memory s = Some m" and "messages m \<noteq> []"
  shows "stored_messages (state (run lib call inp s)) = []
         \<and> outcome (run lib call inp s) = Rerun
         \<and> stored_messages (state (interact lib call inp s)) = []
         \<and> (\<forall>d. DownloadButton d \<notin> set (shown (interact lib call inp s)))
         \<and> (\<forall>d call' inp' s'. DownloadButton d \<in> set (shown (run lib call' inp' s')) \<longrightarrow>
               stored_messages (state (run lib call' inp' s')) \<noteq> [])"
proof -
  let ?r = "run lib call inp s"
  let ?inp2 = "inp\<lparr>clear_chat := False, user_input := None\<rparr>"
  have r: "stored_messages (state ?r) = []" "outcome ?r = Rerun"
    using assms by (simp_all add: run_clear stored_messages_def clear_def)
  have i: "state (interact lib call inp s) = state (run lib call ?inp2 (state ?r))"
    "shown (interact lib call inp s) = shown (run lib call ?inp2 (state ?r))"
    using r(2) by (simp_all add: interact_def Let_def)
  have e: "stored_messages (state (run lib call ?inp2 (state ?r))) = []"
    using r(1) by (rule rerun_after_clear) (simp_all add: submitted_def)
  have dl: "stored_messages (state (run lib call' inp' s')) \<noteq> []"
    if "DownloadButton d \<in> set (shown (run lib call' inp' s'))" for d call' inp' s'
    using run_download [OF that] by blast
  have "DownloadButton d \<notin> set (shown (run lib call ?inp2 (state ?r)))" for d
    using e dl by blast
  with r i e dl show ?thesis by auto
qed

theorem clear_chat_empties_witness:
  "clear_chat press_clear
   \<and> memory chatting_session = Some chatting_memory
   \<and> messages chatting_memory \<noteq> []
   \<and> stored_messages (state (run plain_prompts answering press_clear chatting_session)) = []
   \<and> outcome (run plain_prompts answering press_clear chatting_session) = Rerun
   \<and> stored_messages (state (interact plain_prompts answering press_clear chatting_session)) = []
   \<and> DownloadButton (history_text greeting)
       \<notin> set (shown (interact plain_prompts answering press_clear chatting_session))
   \<and> DownloadButton (history_text greeting)
       \<in> set (shown (run plain_prompts answering example_inputs chatting_session))
   \<and> stored_messages (state (run plain_prompts answering example_inputs chatting_session)) \<noteq> []"
proof -
  have h: "clear_chat press_clear" "memory chatting_session = Some chatting_memory"
    "messages chatting_memory \<noteq> []"
    by (simp_all add: press_clear_def example_inputs_def chatting_session_def
        chatting_memory_def greeting_def)
  have d: "DownloadButton (history_text greeting)
       \<in> set (shown (run plain_prompts answering example_inputs chatting_session))"
    by (simp add: run_def example_inputs_def chatting_session_def chatting_memory_def
        greeting_def init_memory_def download_def plain_prompts_def)
  show ?thesis
    using clear_chat_empties [OF h, of plain_prompts answering] h d by blast
qed

section \<open>The key check\<close>

text \<open>
  C6 (as amended). A missing API credential (the key field is empty) makes the program
  stop before any model call: whatever else the rerun carries, the warning is shown, no
  request is issued, and the run has stopped. Without a press of Clear Chat the session
  state is untouched. A credential that is present but invalid is not detected by the
  script: see the counterexample.
\<close>

theorem missing_key_fails_fast:
  assumes "GROQ_API_KEY inp = []"
  shows "requests (interact lib call inp s) = []
         \<and> outcome (interact lib call inp s) = Stopped
         \<and> shown (interact lib call inp s) =
             [Warning ''Please enter your Groq API key in the sidebar to start chatting.'']
         \<and> (\<not> clear_chat inp \<longrightarrow>
               run lib call inp s = interact lib call inp s \<and> state (run lib call inp s) = s)"
  using assms by (cases "clear_chat inp") (simp_all add: run_clear run_no_key interact_def)

theorem missing_key_fails_fast_witness:
  "GROQ_API_KEY no_key_turn = []
   \<and> \<not> clear_chat no_key_turn
   \<and> requests (interact plain_prompts answering no_key_turn fresh_session) = []
   \<and> outcome (interact plain_prompts answering no_key_turn fresh_session) = Stopped
   \<and> shown (interact plain_prompts answering no_key_turn fresh_session) =
        [Warning ''Please enter your Groq API key in the sidebar to start chatting.'']
   \<and> run plain_prompts answering no_key_turn fresh_session
       = interact plain_prompts answering no_key_turn fresh_session
   \<and> state (run plain_prompts answering no_key_turn fresh_session) = fresh_session"
proof -
  have h: "GROQ_API_KEY no_key_turn = []" "\<not> clear_chat no_key_turn"
    by (simp_all add: no_key_turn_def example_inputs_def)
  show ?thesis
    using missing_key_fails_fast [OF h(1), of plain_prompts answering fresh_session] h by blast
qed

text \<open>
  C6 as stated fails for an invalid credential: with the key \<^verbatim>\<open>not-a-key\<close> and a message
  of the user the script issues the chat request, and the service's rejection escapes as
  an exception.
\<close>

theorem invalid_key_counterexample:
  "GROQ_API_KEY invalid_key_turn = ''not-a-key''
   \<and> requests (run plain_prompts rejecting invalid_key_turn fresh_session) =
       [ChatRequest (chat_llm invalid_key_turn) [SystemMessage ''Be brief.'', HumanMessage ''Hi'']]
   \<and> outcome (run plain_prompts rejecting invalid_key_turn fresh_session)
       = Raised (ApiError ''invalid api key'')"
  by (simp add: invalid_key_turn_def example_inputs_def fresh_session_def rejecting_def run_def
      init_memory_def Let_def new_memory_def ConversationBufferMemory_def predict_def
      chat_request_def load_memory_variables_def chat_llm_def plain_prompts_def)

section \<open>The configuration key tells the configurations apart\<close>

lemma digit_inj:
  "n < 10 \<Longrightarrow> m < 10 \<Longrightarrow> ''0123456789'' ! n = ''0123456789'' ! m \<Longrightarrow> n = m"
  by (simp add: nth_eq_iff_index_eq)

lemma str_nat_length_ge2: "10 \<le> n \<Longrightarrow> 2 \<le> length (str_nat n)"
proof -
  assume "10 \<le> n"
  then have "str_nat n = str_nat (n div 10) @ [''0123456789'' ! (n mod 10)]"
    by (subst str_nat.simps) simp
  moreover have "str_nat (n div 10) \<noteq> []"
    by (subst str_nat.simps) simp
  ultimately show ?thesis
    by (cases "str_nat (n div 10)") simp_all
qed

lemma str_nat_inj: "str_nat n = str_nat m \<Longrightarrow> n = m"
proof (induction n arbitrary: m rule: less_induct)
  case (less n)
  show ?case
  proof (cases "n < 10")
    case n: True
    then have sn: "str_nat n = [''0123456789'' ! n]" by (subst str_nat.simps) simp
    show ?thesis
    proof (cases "m < 10")
      case True
      then have "str_nat m = [''0123456789'' ! m]" by (subst str_nat.simps) simp
      with sn less.prems n True show ?thesis by (simp add: digit_inj)
    next
      case False
      then have "2 \<le> length (str_nat m)" by (simp add: str_nat_length_ge2)
      with sn less.prems show ?thesis by simp
    qed
  next
    case n: False
    then have sn: "str_nat n = str_nat (n div 10) @ [''0123456789'' ! (n mod 10)]"
      by (subst str_nat.simps) simp
    show ?thesis
    proof (cases "m < 10")
      case True
      then have "str_nat m = [''0123456789'' ! m]" by (subst str_nat.simps) simp
      moreover from n have "2 \<le> length (str_nat n)" by (simp add: str_nat_length_ge2)
      ultimately show ?thesis using less.prems by simp
    next
      case False
      then have sm: "str_nat m = str_nat (m div 10) @ [''0123456789'' ! (m mod 10)]"
        by (subst str_nat.simps) simp
      from sn sm less.prems have e: "str_nat (n div 10) = str_nat (m div 10)"
        and d: "''0123456789'' ! (n mod 10) = ''0123456789'' ! (m mod 10)"
        by simp_all
      from n have "n div 10 < n" by simp
      with less.IH e have "n div 10 = m div 10" by blast
      moreover from d have "n mod 10 = m mod 10" by (simp add: digit_inj)
      ultimately show ?thesis by (metis div_mult_mod_eq)
    qed
  qed
qed

lemma str_nat_digits: "set (str_nat n) \<subseteq> set ''0123456789''"
proof (induction n rule: less_induct)
  case (less n)
  show ?case
  proof (cases "n < 10")
    case True
    then have "str_nat n = [''0123456789'' ! n]" by (subst str_nat.simps) simp
    moreover from True have "''0123456789'' ! n \<in> set ''0123456789''"
      by (intro nth_mem) simp
    ultimately show ?thesis by simp
  next
    case False
    then have sn: "str_nat n = str_nat (n div 10) @ [''0123456789'' ! (n mod 10)]"
      by (subst str_nat.simps) simp
    have "''0123456789'' ! (n mod 10) \<in> set ''0123456789''"
      by (intro nth_mem) simp
    moreover from False have "set (str_nat (n div 10)) \<subseteq> set ''0123456789''"
      by (intro less.IH) simp
    ultimately show ?thesis using sn by simp
  qed
qed

lemma str_nat_not_empty: "str_nat n \<noteq> []"
  by (subst str_nat.simps) simp

lemma str_int_inj: "str_int i = str_int j \<Longrightarrow> i = j"
proof -
  assume a: "str_int i = str_int j"
  have nd: "CHR ''-'' \<notin> set (str_nat k)" for k
    using str_nat_digits [of k] by auto
  have ne: "str_nat k \<noteq> CHR ''-'' # r" for k r
    using nd [of k] by auto
  show ?thesis
  proof (cases "i < 0")
    case i: True
    show ?thesis
    proof (cases "j < 0")
      case True
      with i a have "str_nat (nat (- i)) = str_nat (nat (- j))" by (simp add: str_int_def)
      then have "nat (- i) = nat (- j)" by (rule str_nat_inj)
      with i True show ?thesis by simp
    next
      case False
      with i a ne show ?thesis by (simp add: str_int_def) metis
    qed
  next
    case i: False
    show ?thesis
    proof (cases "j < 0")
      case True
      with i a ne show ?thesis by (simp add: str_int_def)
    next
      case False
      with i a have "str_nat (nat i) = str_nat (nat j)" by (simp add: str_int_def)
      then have "nat i = nat j" by (rule str_nat_inj)
      with i False show ?thesis by simp
    qed
  qed
qed

lemma str_window_inj: "str_window a = str_window b \<Longrightarrow> a = b"
proof (cases a; cases b)
  fix i assume "a = None" "b = Some i" "str_window a = str_window b"
  then have "CHR ''N'' \<in> set (str_int i)" by (metis list.set_intros(1) str_window.simps)
  then show ?thesis using str_nat_digits [of "nat i"] str_nat_digits [of "nat (- i)"]
    by (auto simp add: str_int_def split: if_splits)
next
  fix i assume "a = Some i" "b = None" "str_window a = str_window b"
  then have "CHR ''N'' \<in> set (str_int i)" by (metis list.set_intros(1) str_window.simps)
  then show ?thesis using str_nat_digits [of "nat i"] str_nat_digits [of "nat (- i)"]
    by (auto simp add: str_int_def split: if_splits)
qed (auto dest: str_int_inj)

lemma mem_key_inj:
  "mt \<in> set memory_types \<Longrightarrow> mt' \<in> set memory_types \<Longrightarrow>
   mem_key mt wk = mem_key mt' wk' \<Longrightarrow> mt = mt' \<and> wk = wk'"
  by (auto simp add: memory_types_def mem_key_def dest: str_window_inj)

section \<open>The memory selector\<close>

lemma init_memory_fresh:
  "init_memory inp fresh_session =
     \<lparr>memory = Some (new_memory inp),
      mem_config = Some (mem_key (memory_type inp) (window_k inp))\<rparr>"
  by (simp add: init_memory_def fresh_session_def)

lemma run_depends_on_init:
  "init_memory inp s = init_memory inp s' \<Longrightarrow> \<not> clear_chat inp \<Longrightarrow> GROQ_API_KEY inp \<noteq> [] \<Longrightarrow>
   run lib call inp s = run lib call inp s'"
  by (simp add: run_def)

text \<open>Whatever a rerun does after the memory selector, it keeps the object it found there.\<close>

lemma run_after_init:
  assumes "\<not> clear_chat inp" and "GROQ_API_KEY inp \<noteq> []"
    and "memory (init_memory inp s) = Some m"
  shows "\<exists>m'. memory (state (run lib call inp s)) = Some m' \<and> kind m' = kind m
              \<and> prefix (messages m) (messages m')"
    and "mem_config (state (run lib call inp s)) = mem_config (init_memory inp s)"
  using assms(1,2)
  by (cases rule: run_cases [where lib = lib and call = call and s = s]; use assms(3) in simp)+

lemma run_keeps_memory:
  assumes "\<not> clear_chat inp"
    and "mem_config s = Some (mem_key (memory_type inp) (window_k inp))"
    and "memory s = Some m"
  shows "\<exists>m'. memory (state (run lib call inp s)) = Some m' \<and> kind m' = kind m
              \<and> prefix (messages m) (messages m')"
proof (cases "GROQ_API_KEY inp = []")
  case True
  with assms show ?thesis by (simp add: run_no_key)
next
  case False
  have "init_memory inp s = s" using assms(2) by (rule init_memory_same)
  with assms(3) have "memory (init_memory inp s) = Some m" by simp
  with assms(1) False show ?thesis by (rule run_after_init(1))
qed

lemma run_idle_same_key:
  assumes "\<not> clear_chat inp" and "\<not> submitted inp"
    and "mem_config s = Some (mem_key (memory_type inp) (window_k inp))"
  shows "state (run lib call inp s) = s"
proof (cases "GROQ_API_KEY inp = []")
  case True
  with assms show ?thesis by (simp add: run_no_key)
next
  case False
  with assms show ?thesis by (simp add: run_state_idle init_memory_same)
qed

lemma run_idle_new_key:
  assumes "\<not> clear_chat inp" and "\<not> submitted inp" and "GROQ_API_KEY inp \<noteq> []"
    and "mem_config s \<noteq> Some (mem_key (memory_type inp) (window_k inp))"
  shows "stored_messages (state (run lib call inp s)) = []"
  using assms by (simp add: run_state_idle init_memory_changed stored_messages_def
      new_memory_messages)

text \<open>
  C1 (as amended). In every rerun that passes the key check (the API key is not empty)
  and in which Clear Chat is not pressed, the memory object is keyed by the configuration
  key. If the recorded key differs from the requested one, the old memory object is
  replaced by a new, empty one: the rerun goes on exactly as in a fresh session, and
  without a new message of the user the stored message list is empty, whatever it held
  before. If the key is unchanged, the memory object is kept: without a new message the
  session state is the same, and with one the object keeps its kind and its earlier
  messages. Two different configurations of the selectbox never have the same key.
\<close>

theorem memory_keyed_by_config:
  assumes "\<not> clear_chat inp" and "GROQ_API_KEY inp \<noteq> []"
  shows "(mem_config s \<noteq> Some (mem_key (memory_type inp) (window_k inp)) \<longrightarrow>
            init_memory inp s =
              \<lparr>memory = Some (new_memory inp),
               mem_config = Some (mem_key (memory_type inp) (window_k inp))\<rparr>
            \<and> messages (new_memory inp) = []
            \<and> run lib call inp s = run lib call inp fresh_session
            \<and> (\<not> submitted inp \<longrightarrow> stored_messages (state (run lib call inp s)) = []))
       \<and> (mem_config s = Some (mem_key (memory_type inp) (window_k inp)) \<longrightarrow>
            init_memory inp s = s
            \<and> (\<not> submitted inp \<longrightarrow> state (run lib call inp s) = s)
            \<and> (\<forall>m. memory s = Some m \<longrightarrow>
                  (\<exists>m'. memory (state (run lib call inp s)) = Some m' \<and> kind m' = kind m
                        \<and> prefix (messages m) (messages m'))))
       \<and> (\<forall>mt wk. mem_config s = Some (mem_key mt wk) \<and> mt \<in> set memory_types
              \<and> memory_type inp \<in> set memory_types
              \<and> (mt \<noteq> memory_type inp \<or> wk \<noteq> window_k inp) \<longrightarrow>
            mem_config s \<noteq> Some (mem_key (memory_type inp) (window_k inp)))"
proof (intro conjI impI allI)
  assume d: "mem_config s \<noteq> Some (mem_key (memory_type inp) (window_k inp))"
  then show "init_memory inp s =
      \<lparr>memory = Some (new_memory inp), mem_config = Some (mem_key (memory_type inp) (window_k inp))\<rparr>"
    by (rule init_memory_changed)
  then have "init_memory inp s = init_memory inp fresh_session"
    by (simp add: init_memory_fresh)
  then show "run lib call inp s = run lib call inp fresh_session"
    using assms by (rule run_depends_on_init)
  show "messages (new_memory inp) = []" by (rule new_memory_messages)
  show "stored_messages (state (run lib call inp s)) = []" if "\<not> submitted inp"
    using assms(1) that assms(2) d by (rule run_idle_new_key)
next
  assume e: "mem_config s = Some (mem_key (memory_type inp) (window_k inp))"
  then show "init_memory inp s = s" by (rule init_memory_same)
  show "state (run lib call inp s) = s" if "\<not> submitted inp"
    using assms(1) that e by (rule run_idle_same_key)
  show "\<exists>m'. memory (state (run lib call inp s)) = Some m' \<and> kind m' = kind m
              \<and> prefix (messages m) (messages m')" if "memory s = Some m" for m
    using assms(1) e that by (rule run_keeps_memory)
next
  fix mt wk
  assume "mem_config s = Some (mem_key mt wk) \<and> mt \<in> set memory_types
              \<and> memory_type inp \<in> set memory_types
              \<and> (mt \<noteq> memory_type inp \<or> wk \<noteq> window_k inp)"
  then show "mem_config s \<noteq> Some (mem_key (memory_type inp) (window_k inp))"
    using mem_key_inj [of mt "memory_type inp" wk "window_k inp"] by auto
qed

text \<open>
  C1 as stated ("for every rerun") fails in a rerun that stops at the key check: the
  session holds a conversation under the buffer configuration, the key field has been
  emptied and the memory type is switched to the window memory. The recorded key
  differs from the requested one, and the memory object with its two messages stays.
\<close>

theorem switch_without_key_counterexample:
  "mem_config chatting_session
     \<noteq> Some (mem_key (memory_type switch_without_key) (window_k switch_without_key))
   \<and> state (run plain_prompts answering switch_without_key chatting_session) = chatting_session
   \<and> stored_messages (state (run plain_prompts answering switch_without_key chatting_session)) =
       [HumanMessage ''Hi'', AIMessage ''Hello!'']"
  by (simp add: switch_without_key_def switch_to_window_def example_inputs_def
      chatting_session_def chatting_memory_def greeting_def run_def
      stored_messages_def mem_key_def)

theorem memory_keyed_by_config_witness:
  "\<not> clear_chat switch_to_window \<and> GROQ_API_KEY switch_to_window \<noteq> []
   \<and> \<not> submitted switch_to_window
   \<and> mem_config chatting_session = Some (mem_key ''Buffer (all)'' None)
   \<and> ''Buffer (all)'' \<in> set memory_types
   \<and> memory_type switch_to_window \<in> set memory_types
   \<and> ''Buffer (all)'' \<noteq> memory_type switch_to_window
   \<and> mem_config chatting_session
        \<noteq> Some (mem_key (memory_type switch_to_window) (window_k switch_to_window))
   \<and> init_memory switch_to_window chatting_session =
        \<lparr>memory = Some (new_memory switch_to_window),
         mem_config = Some (mem_key (memory_type switch_to_window) (window_k switch_to_window))\<rparr>
   \<and> messages (new_memory switch_to_window) = []
   \<and> run plain_prompts answering switch_to_window chatting_session
        = run plain_prompts answering switch_to_window fresh_session
   \<and> stored_messages (state (run plain_prompts answering switch_to_window chatting_session)) = []
   \<and> \<not> clear_chat example_inputs \<and> GROQ_API_KEY example_inputs \<noteq> []
   \<and> \<not> submitted example_inputs
   \<and> mem_config chatting_session
        = Some (mem_key (memory_type example_inputs) (window_k example_inputs))
   \<and> init_memory example_inputs chatting_session = chatting_session
   \<and> state (run plain_prompts answering example_inputs chatting_session) = chatting_session
   \<and> memory chatting_session = Some chatting_memory
   \<and> (\<exists>m'. memory (state (run plain_prompts answering example_inputs chatting_session)) = Some m'
          \<and> kind m' = kind chatting_memory \<and> prefix (messages chatting_memory) (messages m'))"
proof -
  have a: "\<not> clear_chat switch_to_window" "GROQ_API_KEY switch_to_window \<noteq> []"
    "\<not> submitted switch_to_window" "memory_type switch_to_window \<in> set memory_types"
    "''Buffer (all)'' \<noteq> memory_type switch_to_window" "''Buffer (all)'' \<in> set memory_types"
    by (simp_all add: switch_to_window_def example_inputs_def submitted_def memory_types_def)
  have b: "\<not> clear_chat example_inputs" "GROQ_API_KEY example_inputs \<noteq> []"
    "\<not> submitted example_inputs"
    by (simp_all add: example_inputs_def submitted_def)
  have c: "mem_config chatting_session = Some (mem_key ''Buffer (all)'' None)"
    "mem_config chatting_session
        = Some (mem_key (memory_type example_inputs) (window_k example_inputs))"
    "memory chatting_session = Some chatting_memory"
    by (simp_all add: chatting_session_def example_inputs_def)
  note t1 = memory_keyed_by_config [OF a(1,2), of chatting_session plain_prompts answering]
  note t2 = memory_keyed_by_config [OF b(1,2), of chatting_session plain_prompts answering]
  have d: "mem_config chatting_session
        \<noteq> Some (mem_key (memory_type switch_to_window) (window_k switch_to_window))"
    using t1 a c(1) by blast
  show ?thesis using t1 t2 a b c d by blast
qed

section \<open>What the key does not see\<close>

lemma run_summary_requests:
  assumes "memory (init_memory inp s) = Some m"
    and "SummaryRequest c b l \<in> set (requests (run lib call inp s))"
  shows "kind m = SummaryMemory c"
proof -
  have nc: "\<not> clear_chat inp" and k: "GROQ_API_KEY inp \<noteq> []"
    using assms(2) by (auto simp add: run_def split: if_splits)
  from nc k show ?thesis
    by (cases rule: run_cases [where lib = lib and call = call and s = s])
       (use assms in \<open>auto simp add: chat_request_def\<close>)
qed

lemma run_keeps_config:
  assumes "mem_config s = Some (mem_key (memory_type inp) (window_k inp))"
  shows "mem_config (state (run lib call inp s)) = mem_config s"
proof (cases "clear_chat inp \<or> GROQ_API_KEY inp = []")
  case True
  then show ?thesis
    by (cases "clear_chat inp") (auto simp add: run_clear run_no_key split: option.splits)
next
  case False
  then have nc: "\<not> clear_chat inp" and k: "GROQ_API_KEY inp \<noteq> []" by simp_all
  have i: "init_memory inp s = s" using assms by (rule init_memory_same)
  from nc k show ?thesis
    by (cases rule: run_cases [where lib = lib and call = call and s = s]) (simp_all add: i)
qed

text \<open>
  C9. The configuration key is made of the memory type and the window size only: the
  API key, the model, the temperature, the token limit and the system prompt do not
  enter it. So in every rerun whose memory type and window size are the recorded ones
  the memory initialisation leaves the session as it is, whatever the other inputs are:
  the memory object is kept with its kind (and its earlier messages, unless Clear Chat
  is pressed in that rerun), and without a press or a new message the session state is
  the same. In particular every summarization request of the rerun is made with the chat
  model the summary memory was created with, not with the current model name and key.
\<close>

theorem key_ignores_model_settings:
  assumes "mem_config s = Some (mem_key (memory_type inp) (window_k inp))"
    and "memory s = Some m"
  shows "mem_key (memory_type (inp\<lparr>GROQ_API_KEY := k, model_name := mn, temperature := t,
                       max_tokens := mx, system_prompt := sp\<rparr>))
                 (window_k (inp\<lparr>GROQ_API_KEY := k, model_name := mn, temperature := t,
                       max_tokens := mx, system_prompt := sp\<rparr>))
           = mem_key (memory_type inp) (window_k inp)
       \<and> init_memory inp s = s
       \<and> mem_config (state (run lib call inp s)) = mem_config s
       \<and> (\<exists>m'. memory (state (run lib call inp s)) = Some m' \<and> kind m' = kind m
               \<and> (\<not> clear_chat inp \<longrightarrow> prefix (messages m) (messages m')))
       \<and> (\<not> clear_chat inp \<and> \<not> submitted inp \<longrightarrow> state (run lib call inp s) = s)
       \<and> (\<forall>c b l. SummaryRequest c b l \<in> set (requests (run lib call inp s)) \<longrightarrow>
              kind m = SummaryMemory c)"
proof (intro conjI impI allI)
  show i: "init_memory inp s = s" using assms(1) by (rule init_memory_same)
  show "mem_config (state (run lib call inp s)) = mem_config s"
    using assms(1) by (rule run_keeps_config)
  show "\<exists>m'. memory (state (run lib call inp s)) = Some m' \<and> kind m' = kind m
               \<and> (\<not> clear_chat inp \<longrightarrow> prefix (messages m) (messages m'))"
  proof (cases "clear_chat inp")
    case True
    with assms(2) show ?thesis by (simp add: run_clear clear_def)
  next
    case False
    then show ?thesis using run_keeps_memory [OF False assms, of lib call] by blast
  qed
  show "state (run lib call inp s) = s" if "\<not> clear_chat inp \<and> \<not> submitted inp"
    using that assms(1) by (simp add: run_idle_same_key)
  show "kind m = SummaryMemory c"
    if "SummaryRequest c b l \<in> set (requests (run lib call inp s))" for c b l
    using assms(2) that i run_summary_requests [of inp s m c b l lib call] by simp
qed simp

theorem key_ignores_model_settings_witness:
  "mem_config summary_session
     = Some (mem_key (memory_type other_model_turn) (window_k other_model_turn))
   \<and> memory summary_session = Some summary_memory
   \<and> \<not> clear_chat other_model_turn
   \<and> init_memory other_model_turn summary_session = summary_session
   \<and> mem_config (state (run plain_prompts answering other_model_turn summary_session))
       = mem_config summary_session
   \<and> (\<exists>m'. memory (state (run plain_prompts answering other_model_turn summary_session)) = Some m'
          \<and> kind m' = kind summary_memory \<and> prefix (messages summary_memory) (messages m'))
   \<and> SummaryRequest summary_llm ''A greeting.'' [HumanMessage ''More'', AIMessage ''Hello!'']
       \<in> set (requests (run plain_prompts answering other_model_turn summary_session))
   \<and> kind summary_memory = SummaryMemory summary_llm
   \<and> llm_model_name summary_llm \<noteq> model_name other_model_turn
   \<and> llm_api_key summary_llm \<noteq> GROQ_API_KEY other_model_turn
   \<and> mem_config summary_session
       = Some (mem_key (memory_type other_model_idle) (window_k other_model_idle))
   \<and> \<not> clear_chat other_model_idle \<and> \<not> submitted other_model_idle
   \<and> state (run plain_prompts answering other_model_idle summary_session) = summary_session"
proof -
  have h: "mem_config summary_session
     = Some (mem_key (memory_type other_model_turn) (window_k other_model_turn))"
    "memory summary_session = Some summary_memory" "\<not> clear_chat other_model_turn"
    "llm_model_name summary_llm \<noteq> model_name other_model_turn"
    "llm_api_key summary_llm \<noteq> GROQ_API_KEY other_model_turn"
    by (simp_all add: summary_session_def other_model_turn_def example_inputs_def summary_llm_def)
  have r: "SummaryRequest summary_llm ''A greeting.'' [HumanMessage ''More'', AIMessage ''Hello!'']
       \<in> set (requests (run plain_prompts answering other_model_turn summary_session))"
    by (simp add: run_def init_memory_def summary_session_def other_model_turn_def
        example_inputs_def summary_memory_def greeting_def predict_def save_context_def
        answering_def Let_def plain_prompts_def)
  have i: "mem_config summary_session
       = Some (mem_key (memory_type other_model_idle) (window_k other_model_idle))"
    "\<not> clear_chat other_model_idle" "\<not> submitted other_model_idle"
    by (simp_all add: summary_session_def other_model_idle_def other_model_turn_def
        example_inputs_def submitted_def)
  show ?thesis
    using key_ignores_model_settings
            [OF h(1,2), where lib = plain_prompts and call = answering]
      key_ignores_model_settings
            [OF i(1) h(2), where lib = plain_prompts and call = answering] h r i
    by blast
qed

section \<open>A turn\<close>

lemma placeholders_append: "placeholders (xs @ ys) = placeholders xs @ placeholders ys"
  by (induction xs rule: placeholders.induct) simp_all

lemma placeholders_history: "placeholders (render_history msgs) = []"
  by (induction msgs) (simp_all add: render_history_def)

lemma placeholders_download: "placeholders (download msgs) = []"
  by (simp add: download_def)

lemma placeholders_typing:
  "placeholders (typing accum r) = map (\<lambda>n. accum @ take n r) [1..<Suc (length r)]"
proof (induction r arbitrary: accum)
  case Nil
  show ?case by simp
next
  case (Cons ch rest)
  have "[1..<Suc (length (ch # rest))] = 1 # map Suc [1..<Suc (length rest)]"
    by (simp add: map_Suc_upt upt_conv_Cons del: upt_Suc)
  then show ?case by (simp add: Cons.IH comp_def del: upt_Suc)
qed




text \<open>
  C8. The typing animation is presentation only. In every turn that completes, the
  completion call returned a full response; the stored message list is the earlier list
  followed by the message of the user and one assistant message whose content is that
  full response; the placeholder has shown the prefixes of the response, one character
  more each time, ending with the full response; none of them is stored.
\<close>

theorem reveal_is_presentation:
  assumes "\<not> clear_chat inp" and "GROQ_API_KEY inp \<noteq> []"
    and "user_input inp = Some u" and "u \<noteq> []"
    and "memory (init_memory inp s) = Some m"
    and "outcome (run lib call inp s) = Completed"
  shows "\<exists>full_response sys reqs.
           call (chat_request (chat_llm inp) sys m u) = Inr full_response
         \<and> requests (run lib call inp s) = chat_request (chat_llm inp) sys m u # reqs
         \<and> stored_messages (state (run lib call inp s)) =
             messages m @ [HumanMessage u, AIMessage full_response]
         \<and> placeholders (shown (run lib call inp s)) =
             map (\<lambda>n. take n full_response) [1..<Suc (length full_response)]
         \<and> mem_config (state (run lib call inp s)) = mem_config (init_memory inp s)"
  using assms(1,2)
proof (cases rule: run_cases [where lib = lib and call = call and s = s])
  case (completed p m0 u0 sys out m' reqs)
  with assms(3,5) have e: "m0 = m" "u0 = u" by simp_all
  show ?thesis
    by (rule exI [of _ out], rule exI [of _ sys], rule exI [of _ reqs])
       (use completed e in \<open>simp add: stored_messages_def placeholders_append
          placeholders_history placeholders_download placeholders_typing del: upt_Suc\<close>)
qed (use assms(3,4,6) in \<open>simp_all add: submitted_def\<close>)

theorem reveal_is_presentation_witness:
  "\<not> clear_chat next_turn \<and> GROQ_API_KEY next_turn \<noteq> []
   \<and> user_input next_turn = Some ''More'' \<and> ''More'' \<noteq> []
   \<and> memory (init_memory next_turn chatting_session) = Some chatting_memory
   \<and> outcome (run plain_prompts answering next_turn chatting_session) = Completed
   \<and> (\<exists>full_response sys reqs.
         answering (chat_request (chat_llm next_turn) sys chatting_memory ''More'')
           = Inr full_response
       \<and> requests (run plain_prompts answering next_turn chatting_session)
           = chat_request (chat_llm next_turn) sys chatting_memory ''More'' # reqs
       \<and> stored_messages (state (run plain_prompts answering next_turn chatting_session)) =
           messages chatting_memory @ [HumanMessage ''More'', AIMessage full_response]
       \<and> placeholders (shown (run plain_prompts answering next_turn chatting_session)) =
           map (\<lambda>n. take n full_response) [1..<Suc (length full_response)]
       \<and> mem_config (state (run plain_prompts answering next_turn chatting_session))
           = mem_config (init_memory next_turn chatting_session))"
proof -
  have h: "\<not> clear_chat next_turn" "GROQ_API_KEY next_turn \<noteq> []"
    "user_input next_turn = Some ''More''" "''More'' \<noteq> []"
    "memory (init_memory next_turn chatting_session) = Some chatting_memory"
    by (simp_all add: next_turn_def example_inputs_def chatting_session_def init_memory_def)
  have c: "outcome (run plain_prompts answering next_turn chatting_session) = Completed"
    by (simp add: run_def next_turn_def example_inputs_def chatting_session_def init_memory_def
        plain_prompts_def predict_def answering_def save_context_def Let_def
        chatting_memory_def)
  show ?thesis
    using reveal_is_presentation [where lib = plain_prompts and call = answering, OF h c] h c
    by blast
qed

section \<open>The transcript\<close>

lemma split_blank_plain: "newline \<notin> set x \<Longrightarrow> split_blank acc x = [acc @ x]"
proof (induction x arbitrary: acc)
  case Nil
  show ?case by simp
next
  case (Cons c x)
  then show ?case by (cases x) auto
qed

lemma split_blank_entry:
  "newline \<notin> set x \<Longrightarrow>
   split_blank acc (x @ newline # newline # rest) = (acc @ x) # split_blank [] rest"
proof (induction x arbitrary: acc)
  case Nil
  show ?case by simp
next
  case (Cons c x)
  then show ?case by (cases x) auto
qed

lemma split_blank_join:
  "\<forall>l \<in> set ls. newline \<notin> set l \<Longrightarrow> ls \<noteq> [] \<Longrightarrow>
   split_blank [] (join [newline, newline] ls) = ls"
proof (induction ls)
  case Nil
  then show ?case by simp
next
  case (Cons x ls)
  show ?case
  proof (cases ls)
    case Nil
    with Cons.prems show ?thesis by (simp add: split_blank_plain)
  next
    case (Cons y ys)
    with Cons.prems Cons.IH show ?thesis by (simp add: split_blank_entry)
  qed
qed

lemma upper_labels: "upper ''human'' = ''HUMAN''" "upper ''ai'' = ''AI''"
  by (simp_all add: upper_def upper_char_def)

lemma history_line_plain:
  assumes "mtype m = ''human'' \<or> mtype m = ''ai''" and "newline \<notin> set (content m)"
  shows "newline \<notin> set (history_line m)"
  using assms by (auto simp add: history_line_def upper_labels newline_def)

text \<open>
  C4 (as amended). The transcript is the list of the lines \<^verbatim>\<open>ROLE: content\<close>, one per
  stored message and in their order, joined by a blank line; the role is the upper-case
  type of the message, \<^verbatim>\<open>HUMAN\<close> for a message of the user and \<^verbatim>\<open>AI\<close> for one of the
  assistant, and the content is copied as it is. When no content holds a newline, every
  entry is one line, and splitting the transcript at the blank-line separators gives
  back exactly these lines: as many entries as messages, each beginning with
  \<^verbatim>\<open>HUMAN: \<close> or \<^verbatim>\<open>AI: \<close>.
\<close>

theorem transcript_splits_into_lines:
  assumes "msgs \<noteq> []"
    and "\<forall>m \<in> set msgs. (mtype m = ''human'' \<or> mtype m = ''ai'') \<and> newline \<notin> set (content m)"
  shows "split_blank [] (history_text msgs) = map history_line msgs
       \<and> length (split_blank [] (history_text msgs)) = length msgs
       \<and> (\<forall>m \<in> set msgs. newline \<notin> set (history_line m)
             \<and> history_line m = upper (mtype m) @ '': '' @ content m
             \<and> (history_line m = ''HUMAN: '' @ content m \<or> history_line m = ''AI: '' @ content m))"
proof -
  have "\<forall>l \<in> set (map history_line msgs). newline \<notin> set l"
    using assms(2) by (auto simp add: history_line_plain)
  moreover have "map history_line msgs \<noteq> []" using assms(1) by simp
  ultimately have s: "split_blank [] (history_text msgs) = map history_line msgs"
    unfolding history_text_def by (rule split_blank_join)
  have "history_line m = ''HUMAN: '' @ content m \<or> history_line m = ''AI: '' @ content m"
    if "m \<in> set msgs" for m
    using assms(2) that by (auto simp add: history_line_def upper_labels)
  then show ?thesis
    using s assms(2) by (auto simp add: history_line_plain) (simp add: history_line_def)
qed

theorem transcript_splits_into_lines_witness:
  "greeting \<noteq> []
   \<and> mtype (HumanMessage ''Hi'') = ''human'' \<and> newline \<notin> set (content (HumanMessage ''Hi''))
   \<and> mtype (AIMessage ''Hello!'') = ''ai'' \<and> newline \<notin> set (content (AIMessage ''Hello!''))
   \<and> split_blank [] (history_text greeting) = map history_line greeting
   \<and> length (split_blank [] (history_text greeting)) = length greeting
   \<and> map history_line greeting = [''HUMAN: Hi'', ''AI: Hello!'']"
proof -
  have h: "greeting \<noteq> []"
    "\<forall>m \<in> set greeting. (mtype m = ''human'' \<or> mtype m = ''ai'') \<and> newline \<notin> set (content m)"
    by (simp_all add: greeting_def HumanMessage_def AIMessage_def newline_def)
  have e: "mtype (HumanMessage ''Hi'') = ''human''" "newline \<notin> set (content (HumanMessage ''Hi''))"
    "mtype (AIMessage ''Hello!'') = ''ai''" "newline \<notin> set (content (AIMessage ''Hello!''))"
    "map history_line greeting = [''HUMAN: Hi'', ''AI: Hello!'']"
    by (simp_all add: greeting_def HumanMessage_def AIMessage_def newline_def history_line_def
        upper_labels)
  show ?thesis
    using transcript_splits_into_lines [OF h] h(1) e by blast
qed

text \<open>
  C4 as stated fails when a content holds a blank line, since nothing is escaped: the
  transcript of the single message \<^verbatim>\<open>a\n\nb\<close> of the user splits into two entries, and
  the second one begins with no role label.
\<close>

theorem blank_line_counterexample:
  "split_blank [] (history_text blank_line_session) = [''HUMAN: a'', ''b'']
   \<and> length (split_blank [] (history_text blank_line_session)) \<noteq> length blank_line_session"
  by (simp add: blank_line_session_def history_text_def history_line_def HumanMessage_def
      upper_labels newline_def)

section \<open>Sessions under one memory configuration\<close>

lemma new_memory_fits: "kind_fits (memory_type inp) (window_k inp) (kind (new_memory inp))"
  by (simp add: new_memory_def kind_fits_def ConversationBufferMemory_def
      ConversationSummaryMemory_def ConversationBufferWindowMemory_def)

lemma configured_fresh: "configured mt wk fresh_session"
  by (simp add: configured_def fresh_session_def)

lemma configured_init:
  assumes "configured (memory_type inp) (window_k inp) s"
  shows "\<exists>m. memory (init_memory inp s) = Some m
             \<and> kind_fits (memory_type inp) (window_k inp) (kind m)
             \<and> messages m = stored_messages s
             \<and> mem_config (init_memory inp s) = Some (mem_key (memory_type inp) (window_k inp))"
proof (cases "memory s")
  case None
  with assms have "mem_config s = None" by (simp add: configured_def)
  then have "init_memory inp s =
      \<lparr>memory = Some (new_memory inp), mem_config = Some (mem_key (memory_type inp) (window_k inp))\<rparr>"
    by (simp add: init_memory_changed)
  with None show ?thesis
    by (simp add: new_memory_fits new_memory_messages stored_messages_def)
next
  case (Some m)
  with assms have "mem_config s = Some (mem_key (memory_type inp) (window_k inp))"
    and "kind_fits (memory_type inp) (window_k inp) (kind m)"
    by (simp_all add: configured_def)
  with Some show ?thesis
    by (simp add: init_memory_same stored_messages_def)
qed

text \<open>What one rerun does to a configured session, case by case.\<close>

lemma run_effect:
  assumes "configured (memory_type inp) (window_k inp) s" and "\<not> clear_chat inp"
  shows "configured (memory_type inp) (window_k inp) (state (run lib call inp s))
       \<and> map mtype (stored_messages (state (run lib call inp s))) =
           map mtype (stored_messages s) @
             (if turn_completed inp (run lib call inp s)
                 \<or> turn_failed_in_summary inp (run lib call inp s)
              then [''human'', ''ai''] else [])
       \<and> (turn_failed_in_summary inp (run lib call inp s) \<longrightarrow>
            memory_type inp = ''Summary (long chats)'')
       \<and> \<not> (turn_completed inp (run lib call inp s)
            \<and> turn_failed_in_summary inp (run lib call inp s))"
proof (cases "GROQ_API_KEY inp = []")
  case True
  with assms show ?thesis
    by (simp add: run_no_key turn_completed_def turn_failed_in_summary_def)
next
  case key: False
  from configured_init [OF assms(1)] obtain m where
    m: "memory (init_memory inp s) = Some m"
    and fits: "kind_fits (memory_type inp) (window_k inp) (kind m)"
    and msgs: "messages m = stored_messages s"
    and cfg: "mem_config (init_memory inp s) = Some (mem_key (memory_type inp) (window_k inp))"
    by blast
  have c0: "configured (memory_type inp) (window_k inp) (init_memory inp s)"
    and s0: "stored_messages (init_memory inp s) = stored_messages s"
    using m fits cfg msgs by (simp_all add: configured_def stored_messages_def)
  note defs = turn_completed_def turn_failed_in_summary_def turn_failed_def submitted_def
  from assms(2) key show ?thesis
  proof (cases rule: run_cases [where lib = lib and call = call and s = s])
    case (completed p m0 u sys out m' reqs)
    with m have "m0 = m" by simp
    with completed fits cfg msgs show ?thesis
      by (simp add: defs configured_def stored_messages_def HumanMessage_def AIMessage_def)
  next
    case (summary_raises p m0 u sys out c e)
    with m have "m0 = m" by simp
    with summary_raises fits cfg msgs show ?thesis
      by (simp add: defs configured_def stored_messages_def HumanMessage_def AIMessage_def
          kind_fits_def)
  qed (use c0 s0 in \<open>simp_all add: defs\<close>)
qed

lemma concat_replicate_pair: "length (concat (replicate n [a, b])) = 2 * n"
  by (induction n) simp_all

lemma session_effect:
  assumes "same_config mt wk steps" and "configured mt wk s"
  shows "configured mt wk (session_after lib steps s)
       \<and> map mtype (stored_messages (session_after lib steps s)) =
           map mtype (stored_messages s) @
           concat (replicate (count_runs lib turn_completed steps s
                              + count_runs lib turn_failed_in_summary steps s) [''human'', ''ai''])
       \<and> (mt \<noteq> ''Summary (long chats)'' \<longrightarrow> count_runs lib turn_failed_in_summary steps s = 0)"
  using assms
proof (induction steps arbitrary: s)
  case Nil
  then show ?case by simp
next
  case (Cons step rest)
  obtain call inp where step: "step = (call, inp)" by (cases step)
  let ?r = "run lib call inp s"
  from Cons.prems(1) step have inp: "memory_type inp = mt" "window_k inp = wk" "\<not> clear_chat inp"
    and rest: "same_config mt wk rest"
    by (simp_all add: same_config_def)
  from Cons.prems(2) inp have c: "configured (memory_type inp) (window_k inp) s" by simp
  note e = run_effect [OF c inp(3), of lib call]
  from e inp have c': "configured mt wk (state ?r)" by simp
  note ih = Cons.IH [OF rest c']
  let ?k = "(if turn_completed inp ?r then 1 else 0)
            + (if turn_failed_in_summary inp ?r then 1 else 0) :: nat"
  let ?n = "count_runs lib turn_completed rest (state ?r)
            + count_runs lib turn_failed_in_summary rest (state ?r)"
  have m: "map mtype (stored_messages (state ?r)) =
      map mtype (stored_messages s) @ concat (replicate ?k [''human'', ''ai''])"
    using e by auto
  have z: "mt \<noteq> ''Summary (long chats)'' \<longrightarrow> \<not> turn_failed_in_summary inp ?r"
    using e inp by blast
  have n: "count_runs lib turn_completed (step # rest) s
           + count_runs lib turn_failed_in_summary (step # rest) s = ?k + ?n"
    by (simp add: step)
  have "map mtype (stored_messages (session_after lib (step # rest) s)) =
      map mtype (stored_messages (state ?r)) @ concat (replicate ?n [''human'', ''ai''])"
    using ih by (simp add: step)
  also have "\<dots> = map mtype (stored_messages s) @ concat (replicate (?k + ?n) [''human'', ''ai''])"
    unfolding m by (simp only: replicate_add concat_append append_assoc)
  finally have f: "map mtype (stored_messages (session_after lib (step # rest) s)) =
      map mtype (stored_messages s) @
      concat (replicate (count_runs lib turn_completed (step # rest) s
                         + count_runs lib turn_failed_in_summary (step # rest) s)
                [''human'', ''ai''])"
    unfolding n .
  have "configured mt wk (session_after lib (step # rest) s)"
    using ih by (simp add: step)
  moreover have "mt \<noteq> ''Summary (long chats)'' \<longrightarrow>
      count_runs lib turn_failed_in_summary (step # rest) s = 0"
    using ih z by (simp add: step)
  ultimately show ?case using f by blast
qed

lemmas eval_defs =
  run_def init_memory_def Let_def new_memory_def predict_def save_context_def chat_request_def
  load_memory_variables_def ConversationBufferMemory_def ConversationSummaryMemory_def
  ConversationBufferWindowMemory_def example_inputs_def fresh_session_def
  turn_completed_def turn_failed_def turn_failed_in_summary_def submitted_def
  stored_messages_def answering_def rejecting_def plain_prompts_def

text \<open>
  C3 (as amended). For any sequence of reruns under one memory configuration, started in
  a fresh session and without a press of Clear Chat, the stored messages are pairs of
  one message of the user and one of the assistant, in the order of the turns, and there
  is one pair for every turn whose completion was stored: the completed turns, and the
  turns that failed in the summarizer call after their completion had returned. The
  latter exist under the summary memory only. So under the buffer and the window memory
  the length of the stored list is exactly twice the number of completed turns, and
  failed turns add nothing to it; under the summary memory the same holds as long as no
  summarizer call fails.
\<close>

theorem stored_length_counts_turns:
  assumes "same_config mt wk steps"
  shows "map mtype (stored_messages (session_after lib steps fresh_session)) =
           concat (replicate (count_runs lib turn_completed steps fresh_session
                              + count_runs lib turn_failed_in_summary steps fresh_session)
                     [''human'', ''ai''])
       \<and> length (stored_messages (session_after lib steps fresh_session)) =
           2 * count_runs lib turn_completed steps fresh_session
           + 2 * count_runs lib turn_failed_in_summary steps fresh_session
       \<and> (mt \<noteq> ''Summary (long chats)'' \<longrightarrow>
            count_runs lib turn_failed_in_summary steps fresh_session = 0
            \<and> length (stored_messages (session_after lib steps fresh_session)) =
                2 * count_runs lib turn_completed steps fresh_session)"
proof -
  note e = session_effect [OF assms configured_fresh, of lib]
  have s: "stored_messages fresh_session = []"
    by (simp add: stored_messages_def fresh_session_def)
  from e s have m: "map mtype (stored_messages (session_after lib steps fresh_session)) =
           concat (replicate (count_runs lib turn_completed steps fresh_session
                              + count_runs lib turn_failed_in_summary steps fresh_session)
                     [''human'', ''ai''])"
    by simp
  have "length (map mtype (stored_messages (session_after lib steps fresh_session))) =
          2 * (count_runs lib turn_completed steps fresh_session
               + count_runs lib turn_failed_in_summary steps fresh_session)"
    unfolding m by (rule concat_replicate_pair)
  then have l: "length (stored_messages (session_after lib steps fresh_session)) =
           2 * count_runs lib turn_completed steps fresh_session
           + 2 * count_runs lib turn_failed_in_summary steps fresh_session"
    by simp
  from e have "mt \<noteq> ''Summary (long chats)'' \<longrightarrow>
      count_runs lib turn_failed_in_summary steps fresh_session = 0" by blast
  with m l show ?thesis by simp
qed

theorem stored_length_counts_turns_witness:
  "same_config ''Buffer (all)'' None three_turns
   \<and> ''Buffer (all)'' \<noteq> ''Summary (long chats)''
   \<and> count_runs plain_prompts turn_completed three_turns fresh_session = 2
   \<and> count_runs plain_prompts turn_failed three_turns fresh_session = 1
   \<and> count_runs plain_prompts turn_failed_in_summary three_turns fresh_session = 0
   \<and> map mtype (stored_messages (session_after plain_prompts three_turns fresh_session)) =
        concat (replicate (count_runs plain_prompts turn_completed three_turns fresh_session
                           + count_runs plain_prompts turn_failed_in_summary three_turns
                               fresh_session)
                  [''human'', ''ai''])
   \<and> length (stored_messages (session_after plain_prompts three_turns fresh_session)) =
        2 * count_runs plain_prompts turn_completed three_turns fresh_session"
proof -
  have h: "same_config ''Buffer (all)'' None three_turns"
    "''Buffer (all)'' \<noteq> ''Summary (long chats)''"
    by (simp_all add: same_config_def three_turns_def hi_turn_def next_turn_def example_inputs_def)
  have c: "count_runs plain_prompts turn_completed three_turns fresh_session = 2"
    "count_runs plain_prompts turn_failed three_turns fresh_session = 1"
    by (simp_all add: three_turns_def hi_turn_def next_turn_def eval_defs)
  show ?thesis
    using stored_length_counts_turns [OF h(1), of plain_prompts] h c by blast
qed

text \<open>
  C3 as stated fails under the summary memory: the completion call of the first turn
  returns, the two messages are appended, and then the summarizer call fails. The
  exception leaves \<^verbatim>\<open>predict\<close>, the turn has failed, and the stored list has two
  messages while no turn has completed.
\<close>

theorem summarizer_failure_counterexample:
  "same_config ''Summary (long chats)'' None [(summarizer_down, summary_turn)]
   \<and> outcome (run plain_prompts summarizer_down summary_turn fresh_session)
       = Raised (ApiError ''rate limit reached'')
   \<and> count_runs plain_prompts turn_completed [(summarizer_down, summary_turn)] fresh_session = 0
   \<and> count_runs plain_prompts turn_failed [(summarizer_down, summary_turn)] fresh_session = 1
   \<and> stored_messages (session_after plain_prompts [(summarizer_down, summary_turn)] fresh_session) =
       [HumanMessage ''Hi'', AIMessage ''Hello!'']
   \<and> length (stored_messages
               (session_after plain_prompts [(summarizer_down, summary_turn)] fresh_session))
       \<noteq> 2 * count_runs plain_prompts turn_completed [(summarizer_down, summary_turn)]
               fresh_session"
  by (simp add: same_config_def summary_turn_def summarizer_down_def eval_defs)

section \<open>The window memory\<close>

text \<open>The requests of a turn whose memory is not the summary memory.\<close>

lemma run_requests_plain:
  assumes "\<not> clear_chat inp" and "GROQ_API_KEY inp \<noteq> []"
    and "memory (init_memory inp s) = Some m"
    and "user_input inp = Some u" and "u \<noteq> []"
    and "\<forall>c. kind m \<noteq> SummaryMemory c"
  shows "requests (run lib call inp s) = []
         \<or> (\<exists>sys. requests (run lib call inp s) = [chat_request (chat_llm inp) sys m u])"
    and "from_messages lib (system_prompt inp) = Inr p \<Longrightarrow>
         conversation_chain lib (chat_llm inp) m p = None \<Longrightarrow>
         format_system lib p (load_memory_variables m) u = Inr sys \<Longrightarrow>
         requests (run lib call inp s) = [chat_request (chat_llm inp) sys m u]"
  using assms(1,2)
  by (cases rule: run_cases [where lib = lib and call = call and s = s];
      use assms(3-6) in \<open>auto simp add: submitted_def\<close>)+

text \<open>
  C5. Under the window memory with window size \<open>n\<close> (a positive number; the slider gives
  2 to 20), after any sequence of reruns with these settings, every request the next
  turn issues is a chat request whose prompt is the system message, then the last
  \<open>2 * n\<close> stored messages, then the new message of the user; the turn issues at most
  one request, and it issues this one whenever the system prompt is accepted and filled
  in. The history in the prompt is an end piece of the stored list and has at most
  \<open>2 * n\<close> messages, that is the \<open>n\<close> most recent exchanges; the stored list has two
  messages for each completed turn, and once more than \<open>n\<close> turns have completed the
  history has exactly \<open>2 * n\<close> messages.
\<close>

theorem window_keeps_last_exchanges:
  assumes "same_config ''Window (last N)'' (Some n) steps" and "0 < n"
    and "memory_type inp = ''Window (last N)''" and "window_k inp = Some n"
    and "\<not> clear_chat inp" and "GROQ_API_KEY inp \<noteq> []"
    and "user_input inp = Some u" and "u \<noteq> []"
    and "msgs = stored_messages (session_after lib steps fresh_session)"
    and "hist = drop (length msgs - nat (n * 2)) msgs"
  shows "(\<forall>req \<in> set (requests (run lib call inp (session_after lib steps fresh_session))).
            \<exists>sys. req = ChatRequest (chat_llm inp) (SystemMessage sys # hist @ [HumanMessage u]))
       \<and> length (requests (run lib call inp (session_after lib steps fresh_session))) \<le> 1
       \<and> (\<forall>p m sys.
            memory (init_memory inp (session_after lib steps fresh_session)) = Some m
            \<and> from_messages lib (system_prompt inp) = Inr p
            \<and> conversation_chain lib (chat_llm inp) m p = None
            \<and> format_system lib p hist u = Inr sys \<longrightarrow>
              requests (run lib call inp (session_after lib steps fresh_session)) =
                [ChatRequest (chat_llm inp) (SystemMessage sys # hist @ [HumanMessage u])])
       \<and> suffix hist msgs
       \<and> length hist \<le> nat (n * 2)
       \<and> length msgs = 2 * count_runs lib turn_completed steps fresh_session
       \<and> (nat n < count_runs lib turn_completed steps fresh_session \<longrightarrow>
            length hist = nat (n * 2))"
proof -
  let ?s = "session_after lib steps fresh_session"
  note e = session_effect [OF assms(1) configured_fresh, of lib]
  from e have c: "configured (memory_type inp) (window_k inp) ?s"
    using assms(3,4) by simp
  from configured_init [OF c] obtain m where
    m: "memory (init_memory inp ?s) = Some m"
    and fits: "kind_fits (memory_type inp) (window_k inp) (kind m)"
    and mm: "messages m = msgs"
    using assms(9) by auto
  from fits assms(2,3,4) have k: "kind m = WindowMemory n"
    by (cases "kind m") (simp_all add: kind_fits_def)
  then have ns: "\<forall>c. kind m \<noteq> SummaryMemory c" by simp
  have l: "load_memory_variables m = hist"
    using k assms(2,10) mm by (simp add: load_memory_variables_def)
  have cr: "chat_request (chat_llm inp) sys m u =
      ChatRequest (chat_llm inp) (SystemMessage sys # hist @ [HumanMessage u])" for sys
    by (simp add: chat_request_def l)
  note rq = run_requests_plain [where lib = lib and call = call, OF assms(5,6) m assms(7,8) ns]
  have a: "\<forall>req \<in> set (requests (run lib call inp ?s)).
            \<exists>sys. req = ChatRequest (chat_llm inp) (SystemMessage sys # hist @ [HumanMessage u])"
    using rq(1) cr by auto
  have b: "length (requests (run lib call inp ?s)) \<le> 1"
    using rq(1) by auto
  have d: "requests (run lib call inp ?s) =
      [ChatRequest (chat_llm inp) (SystemMessage sys # hist @ [HumanMessage u])]"
    if "memory (init_memory inp ?s) = Some m'
        \<and> from_messages lib (system_prompt inp) = Inr p
        \<and> conversation_chain lib (chat_llm inp) m' p = None
        \<and> format_system lib p hist u = Inr sys" for p m' sys
  proof -
    from that m have "m' = m" by simp
    with that l show ?thesis using rq(2) [of p sys] cr by simp
  qed
  have z: "count_runs lib turn_failed_in_summary steps fresh_session = 0"
    using e by simp
  have "map mtype msgs =
      concat (replicate (count_runs lib turn_completed steps fresh_session) [''human'', ''ai''])"
    using e z assms(9) by (simp add: stored_messages_def fresh_session_def)
  then have "length (map mtype msgs) = 2 * count_runs lib turn_completed steps fresh_session"
    by (simp only: concat_replicate_pair)
  then have len: "length msgs = 2 * count_runs lib turn_completed steps fresh_session" by simp
  have f: "length hist = nat (n * 2)"
    if "nat n < count_runs lib turn_completed steps fresh_session"
    using that len assms(2,10) by (simp add: nat_mult_distrib)
  have g: "suffix hist msgs" unfolding assms(10) by (rule suffix_drop)
  have h: "length hist \<le> nat (n * 2)" unfolding assms(10) by simp
  from a b d g h len f show ?thesis by blast
qed

theorem window_keeps_last_exchanges_witness:
  "same_config ''Window (last N)'' (Some 2) window_turns \<and> (0::int) < 2
   \<and> memory_type (window_say ''four'') = ''Window (last N)''
   \<and> window_k (window_say ''four'') = Some 2
   \<and> \<not> clear_chat (window_say ''four'') \<and> GROQ_API_KEY (window_say ''four'') \<noteq> []
   \<and> user_input (window_say ''four'') = Some ''four'' \<and> ''four'' \<noteq> []
   \<and> stored_messages (session_after plain_prompts window_turns fresh_session) =
       [HumanMessage ''one'', AIMessage ''re: one'', HumanMessage ''two'', AIMessage ''re: two'',
        HumanMessage ''three'', AIMessage ''re: three'']
   \<and> [HumanMessage ''two'', AIMessage ''re: two'', HumanMessage ''three'', AIMessage ''re: three'']
       = drop (length [HumanMessage ''one'', AIMessage ''re: one'', HumanMessage ''two'',
                       AIMessage ''re: two'', HumanMessage ''three'', AIMessage ''re: three'']
               - nat (2 * 2))
           [HumanMessage ''one'', AIMessage ''re: one'', HumanMessage ''two'', AIMessage ''re: two'',
            HumanMessage ''three'', AIMessage ''re: three'']
   \<and> memory (init_memory (window_say ''four'')
                (session_after plain_prompts window_turns fresh_session)) =
       Some \<lparr>kind = WindowMemory 2,
             messages = [HumanMessage ''one'', AIMessage ''re: one'', HumanMessage ''two'',
                         AIMessage ''re: two'', HumanMessage ''three'', AIMessage ''re: three''],
             buffer = []\<rparr>
   \<and> from_messages plain_prompts (system_prompt (window_say ''four'')) = Inr ''Be brief.''
   \<and> nat 2 < count_runs plain_prompts turn_completed window_turns fresh_session
   \<and> requests (run plain_prompts echoing (window_say ''four'')
                 (session_after plain_prompts window_turns fresh_session)) =
       [ChatRequest (chat_llm (window_say ''four''))
          (SystemMessage ''Be brief.''
           # [HumanMessage ''two'', AIMessage ''re: two'', HumanMessage ''three'',
              AIMessage ''re: three'']
           @ [HumanMessage ''four''])]
   \<and> length [HumanMessage ''two'', AIMessage ''re: two'', HumanMessage ''three'',
             AIMessage ''re: three''] = nat (2 * 2)"
proof -
  let ?S = "session_after plain_prompts window_turns fresh_session"
  let ?msgs = "[HumanMessage ''one'', AIMessage ''re: one'', HumanMessage ''two'',
                AIMessage ''re: two'', HumanMessage ''three'', AIMessage ''re: three'']"
  let ?hist = "[HumanMessage ''two'', AIMessage ''re: two'', HumanMessage ''three'',
                AIMessage ''re: three'']"
  let ?m = "\<lparr>kind = WindowMemory 2, messages = ?msgs, buffer = []\<rparr>"
  have h: "same_config ''Window (last N)'' (Some 2) window_turns" "(0::int) < 2"
    "memory_type (window_say ''four'') = ''Window (last N)''"
    "window_k (window_say ''four'') = Some 2"
    "\<not> clear_chat (window_say ''four'')" "GROQ_API_KEY (window_say ''four'') \<noteq> []"
    "user_input (window_say ''four'') = Some ''four''" "''four'' \<noteq> []"
    by (simp_all add: same_config_def window_turns_def window_say_def example_inputs_def)
  have ev: "stored_messages ?S = ?msgs"
    by (simp add: window_turns_def window_say_def echoing_def eval_defs HumanMessage_def)
  have hi: "?hist = drop (length ?msgs - nat (2 * 2)) ?msgs" by simp
  have mi: "memory (init_memory (window_say ''four'') ?S) = Some ?m"
    by (simp add: window_turns_def window_say_def echoing_def eval_defs HumanMessage_def
        mem_key_def str_int_def str_nat.simps)
  have g: "from_messages plain_prompts (system_prompt (window_say ''four'')) = Inr ''Be brief.''"
    "conversation_chain plain_prompts (chat_llm (window_say ''four'')) ?m ''Be brief.'' = None"
    "format_system plain_prompts ''Be brief.'' ?hist ''four'' = Inr ''Be brief.''"
    by (simp_all add: plain_prompts_def window_say_def example_inputs_def)
  have c: "nat 2 < count_runs plain_prompts turn_completed window_turns fresh_session"
    by (simp add: window_turns_def window_say_def echoing_def eval_defs HumanMessage_def)
  note t = window_keeps_last_exchanges
             [where lib = plain_prompts and call = echoing, OF h ev [symmetric] hi]
  show ?thesis using t h ev hi mi g c by blast
qed

end
